theory Spec2Isabelle
  imports Main
begin

section \<open>Python values, series and tables\<close>

text \<open>
  The engine of \<^verbatim>\<open>feature-pipeline-demo.ipynb\<close> (classes \<^verbatim>\<open>Transformation\<close> and
  \<^verbatim>\<open>FeaturePipeline\<close>) is embedded over a small model of the pandas objects it handles.
  A cell, a row label and a column label are all scalars: a string, a number or the
  missing value (Python's \<^verbatim>\<open>None\<close>; a NaN cell is represented by it too).  A
  \<^verbatim>\<open>Series\<close> carries its name, its values and its row labels, a \<^verbatim>\<open>DataFrame\<close> its
  columns in order (label and values) and its row labels.  The number of rows of a
  frame is the length of its index.
\<close>

datatype val = Str string | Num int | PyNone

record series =
  sname :: val
  svalues :: "val list"
  sindex :: "val list"

record frame =
  columns :: "(val \<times> val list) list"
  index :: "val list"

datatype pyobj = DataFrame frame | Series series | Scalar val

text \<open>
  Exceptions are values.  \<open>OtherError\<close> stands for any exception class that is not a
  \<^verbatim>\<open>TypeError\<close>.  \<open>NotModelled\<close> is no Python exception: it marks the inputs on which
  pandas leaves the fragment described here (hierarchical column labels, label unions
  whose order depends on the index class, row-wise \<^verbatim>\<open>apply\<close> on a table without rows
  or with a repeated identity column); nothing is stated about the program on them.
\<close>

datatype pyerr =
    TypeError string
  | ValueError string
  | KeyError string
  | AttributeError string
  | AssertionError string
  | Exception string
  | OtherError string
  | NotModelled string

fun is_TypeError :: "pyerr \<Rightarrow> bool" where
  "is_TypeError (TypeError m) = True"
| "is_TypeError e = False"

subsection \<open>Decimal notation and \<^verbatim>\<open>str\<close>\<close>

definition digit_char :: "nat \<Rightarrow> char" where
  "digit_char d = ''0123456789'' ! d"

function string_of_nat :: "nat \<Rightarrow> string" where
  "string_of_nat n =
     (if n < 10 then [digit_char n]
      else string_of_nat (n div 10) @ [digit_char (n mod 10)])"
  by pat_completeness auto
termination
  by (relation "measure id") auto

declare string_of_nat.simps [simp del]

definition string_of_int :: "int \<Rightarrow> string" where
  "string_of_int i = (if i < 0 then ''-'' @ string_of_nat (nat (- i)) else string_of_nat (nat i))"

fun py_str :: "val \<Rightarrow> string" where
  "py_str (Str s) = s"
| "py_str (Num i) = string_of_int i"
| "py_str PyNone = ''None''"

subsection \<open>Transform functions\<close>

text \<open>
  A transform function is an opaque callable.  It is called either with keyword
  arguments (\<^verbatim>\<open>f(**args)\<close>) or positionally (\<^verbatim>\<open>f(*list(args.values()))\<close>), and a call
  returns a value, fails to bind its parameters (Python raises a \<^verbatim>\<open>TypeError\<close> before
  the body runs), or raises from its body.  \<open>fid\<close> is the identity of the function
  object; \<open>attrs_settable\<close> tells whether the object accepts new attributes (a
  \<^verbatim>\<open>def\<close> or \<^verbatim>\<open>lambda\<close> does, a builtin does not).
\<close>

datatype call = Named "(string \<times> pyobj) list" | Positional "pyobj list"

datatype outcome = Returns pyobj | SignatureMismatch | Raises pyerr

record pyfunction =
  fid :: nat
  code :: "call \<Rightarrow> outcome"
  attrs_settable :: bool

section \<open>The class \<^verbatim>\<open>Transformation\<close>\<close>

datatype cols = Col string | Cols "string list"

datatype out_name = NoName | Name string | Names "string list"

record transformation =
  on_col :: cols
  transformation_f :: pyfunction
  name :: out_name
  transform_type :: string
  transformation_args :: "(string \<times> pyobj) list option"
  transformation_applied :: bool

definition Transformation ::
  "cols \<Rightarrow> pyfunction \<Rightarrow> out_name \<Rightarrow> (string \<times> pyobj) list option \<Rightarrow> string \<Rightarrow> transformation" where
  "Transformation oc f nm args tt =
     \<lparr>on_col = oc, transformation_f = f, name = nm, transform_type = tt,
      transformation_args = args, transformation_applied = False\<rparr>"

section \<open>The engine and its environment\<close>

text \<open>
  The first three fields are the attributes of the \<^verbatim>\<open>FeaturePipeline\<close> object.  The
  other three are the part of the environment the engine acts on: the \<^verbatim>\<open>logger\<close>
  attribute of every function object (\<open>None\<close> while it is not set), what was printed,
  and a log of the calls made to transform functions.
\<close>

type_synonym logger = "nat option"

datatype message = AlreadyAdded nat | AppliedSkipping nat

record state =
  transformations :: "transformation list"
  transformed_df :: "pyobj option"
  logger :: logger
  fn_logger :: "nat \<Rightarrow> logger option"
  printed :: "message list"
  called :: "(nat \<times> call) list"

definition FeaturePipeline :: "logger \<Rightarrow> (nat \<Rightarrow> logger option) \<Rightarrow> state" where
  "FeaturePipeline lg attrs =
     \<lparr>transformations = [], transformed_df = None, logger = lg,
      fn_logger = attrs, printed = [], called = []\<rparr>"

subsection \<open>\<^verbatim>\<open>Transformation.apply\<close>\<close>

definition call_f :: "pyfunction \<Rightarrow> call \<Rightarrow> state \<Rightarrow> state \<times> outcome" where
  "call_f f c st = (st\<lparr>called := called st @ [(fid f, c)]\<rparr>, code f c)"

text \<open>
  \<^verbatim>\<open>try: tdf = self.transformation_f(**args)\<close>
  \<^verbatim>\<open>except TypeError: tdf = self.transformation_f(*list(args.values()))\<close>
\<close>

definition call_positional :: "pyfunction \<Rightarrow> (string \<times> pyobj) list \<Rightarrow> state \<Rightarrow> state \<times> (pyerr + pyobj)" where
  "call_positional f args st =
     (case call_f f (Positional (map snd args)) st of
        (st', Returns r) \<Rightarrow> (st', Inr r)
      | (st', SignatureMismatch) \<Rightarrow> (st', Inl (TypeError ''arguments do not match the signature''))
      | (st', Raises e) \<Rightarrow> (st', Inl e))"

definition call_transformation_f :: "pyfunction \<Rightarrow> (string \<times> pyobj) list \<Rightarrow> state \<Rightarrow> state \<times> (pyerr + pyobj)" where
  "call_transformation_f f args st =
     (case call_f f (Named args) st of
        (st', Returns r) \<Rightarrow> (st', Inr r)
      | (st', SignatureMismatch) \<Rightarrow> call_positional f args st'
      | (st', Raises e) \<Rightarrow>
          (if is_TypeError e then call_positional f args st' else (st', Inl e)))"

definition positional_index :: "nat \<Rightarrow> val list" where
  "positional_index n = map (\<lambda>i. Num (int i)) [0..<n]"

text \<open>
  The renaming block of \<^verbatim>\<open>apply\<close>, guarded by \<^verbatim>\<open>self.name is not None\<close>.  The code
  assigns \<^verbatim>\<open>tdf.columns\<close> on the object the function returned; here objects are values,
  so every call is taken to return an object of its own.  (A function that hands out
  one and the same table object at every call would find it already renamed by an
  earlier invocation; such sharing is outside this model.)
\<close>

definition rename :: "out_name \<Rightarrow> pyobj \<Rightarrow> pyerr + pyobj" where
  "rename nm tdf =
     (case nm of
        NoName \<Rightarrow> Inr tdf
      | Names ns \<Rightarrow>
          (case tdf of
             DataFrame f \<Rightarrow>
               (if length ns = length (columns f)
                then Inr (DataFrame (f\<lparr>columns := zip (map Str ns) (map snd (columns f))\<rparr>))
                else Inl (ValueError ''Length mismatch''))
           | Series s \<Rightarrow> Inl (NotModelled ''hierarchical column labels'')
           | Scalar v \<Rightarrow> Inr tdf)
      | Name n \<Rightarrow>
          (case tdf of
             DataFrame f \<Rightarrow>
               Inr (DataFrame (f\<lparr>columns :=
                      map (\<lambda>(c, vs). (Str (n @ ''_'' @ py_str c), vs)) (columns f)\<rparr>))
           | Series s \<Rightarrow> Inr (DataFrame \<lparr>columns = [(Str n, svalues s)], index = sindex s\<rparr>)
           | Scalar v \<Rightarrow> Inr tdf))"

text \<open>\<^verbatim>\<open>tdf.reset_index(drop=True)\<close>: only pandas objects have the method.\<close>

definition reset_index :: "pyobj \<Rightarrow> pyerr + pyobj" where
  "reset_index tdf =
     (case tdf of
        DataFrame f \<Rightarrow> Inr (DataFrame (f\<lparr>index := positional_index (length (index f))\<rparr>))
      | Series s \<Rightarrow> Inr (Series (s\<lparr>sindex := positional_index (length (sindex s))\<rparr>))
      | Scalar v \<Rightarrow> Inl (AttributeError ''reset_index''))"

text \<open>
  The method returns the fragment; the unit, with its flag set, is returned beside it
  (the flag is set last, so a failure leaves the unit as it was).
\<close>

definition Transformation_apply ::
  "transformation \<Rightarrow> (string \<times> pyobj) list \<Rightarrow> state \<Rightarrow> state \<times> (pyerr + pyobj \<times> transformation)" where
  "Transformation_apply t args st =
     (case call_transformation_f (transformation_f t) args st of
        (st', Inl e) \<Rightarrow> (st', Inl e)
      | (st', Inr tdf) \<Rightarrow>
          (case rename (name t) tdf of
             Inl e \<Rightarrow> (st', Inl e)
           | Inr tdf1 \<Rightarrow>
               (case reset_index tdf1 of
                  Inl e \<Rightarrow> (st', Inl e)
                | Inr tdf2 \<Rightarrow> (st', Inr (tdf2, t\<lparr>transformation_applied := True\<rparr>)))))"


section \<open>The pandas operations the engine uses\<close>

text \<open>Python dictionaries keep insertion order; assigning to a present key keeps its place.\<close>

fun dict_set :: "(string \<times> 'v) list \<Rightarrow> string \<Rightarrow> 'v \<Rightarrow> (string \<times> 'v) list" where
  "dict_set [] k v = [(k, v)]"
| "dict_set ((k', v') # d) k v = (if k' = k then (k, v) # d else (k', v') # dict_set d k v)"

definition dict_update :: "(string \<times> 'v) list \<Rightarrow> (string \<times> 'v) list \<Rightarrow> (string \<times> 'v) list" where
  "dict_update d e = foldl (\<lambda>d (k, v). dict_set d k v) d e"

text \<open>The first error of a sequence of results, or all the values.\<close>

fun collect :: "('e + 'a) list \<Rightarrow> 'e + 'a list" where
  "collect [] = Inr []"
| "collect (Inl e # rs) = Inl e"
| "collect (Inr x # rs) = (case collect rs of Inl e \<Rightarrow> Inl e | Inr xs \<Rightarrow> Inr (x # xs))"

text \<open>
  \<^verbatim>\<open>duplicated()\<close> marks every element that repeats an earlier one; selecting with the
  negated mask keeps the first occurrences, in order.
\<close>

fun duplicated_from :: "'a list \<Rightarrow> 'a list \<Rightarrow> bool list" where
  "duplicated_from seen [] = []"
| "duplicated_from seen (x # xs) = (x \<in> set seen) # duplicated_from (x # seen) xs"

definition duplicated :: "'a list \<Rightarrow> bool list" where
  "duplicated xs = duplicated_from [] xs"

definition select_not :: "bool list \<Rightarrow> 'a list \<Rightarrow> 'a list" where
  "select_not dups xs = map snd (filter (\<lambda>(d, x). \<not> d) (zip dups xs))"

definition has_column :: "frame \<Rightarrow> string \<Rightarrow> bool" where
  "has_column df c = (Str c \<in> set (map fst (columns df)))"

text \<open>
  \<^verbatim>\<open>df[c]\<close> on a table is the column of that label (a table of all of them when the
  label is repeated); on a series it looks \<^verbatim>\<open>c\<close> up among the row labels.
\<close>

definition frame_getitem :: "frame \<Rightarrow> string \<Rightarrow> pyerr + pyobj" where
  "frame_getitem df c =
     (case filter (\<lambda>(l, vs). l = Str c) (columns df) of
        [] \<Rightarrow> Inl (KeyError c)
      | [(l, vs)] \<Rightarrow> Inr (Series \<lparr>sname = l, svalues = vs, sindex = index df\<rparr>)
      | cs \<Rightarrow> Inr (DataFrame \<lparr>columns = cs, index = index df\<rparr>))"

definition series_getitem :: "series \<Rightarrow> string \<Rightarrow> pyerr + pyobj" where
  "series_getitem s c =
     (case filter (\<lambda>(l, v). l = Str c) (zip (sindex s) (svalues s)) of
        [] \<Rightarrow> Inl (KeyError c)
      | [(l, v)] \<Rightarrow> Inr (Scalar v)
      | lvs \<Rightarrow> Inr (Series \<lparr>sname = sname s, svalues = map snd lvs, sindex = map fst lvs\<rparr>))"

definition py_getitem :: "pyobj option \<Rightarrow> string \<Rightarrow> pyerr + pyobj" where
  "py_getitem obj c =
     (case obj of
        None \<Rightarrow> Inl (TypeError ''NoneType object is not subscriptable'')
      | Some (DataFrame f) \<Rightarrow> frame_getitem f c
      | Some (Series s) \<Rightarrow> series_getitem s c
      | Some (Scalar v) \<Rightarrow> Inl (TypeError ''object is not subscriptable''))"

subsection \<open>\<^verbatim>\<open>pd.concat(objs, axis=1)\<close>\<close>

text \<open>
  Tables contribute their columns, a series one column under its name; a series
  without a name is numbered, counting the unnamed ones from 0.  Objects with the same
  row labels are put side by side.  Otherwise the rows are the union of the labels:
  for string labels without repetition it is taken in order of first appearance and
  the cells an object lacks are missing; other unions are outside the model.
\<close>

fun concat_columns :: "nat \<Rightarrow> pyobj list \<Rightarrow> (val \<times> val list) list list" where
  "concat_columns k [] = []"
| "concat_columns k (DataFrame f # os) = columns f # concat_columns k os"
| "concat_columns k (Series s # os) =
     (if sname s = PyNone then [(Num (int k), svalues s)] # concat_columns (Suc k) os
      else [(sname s, svalues s)] # concat_columns k os)"
| "concat_columns k (Scalar v # os) = [] # concat_columns k os"

fun obj_index :: "pyobj \<Rightarrow> val list" where
  "obj_index (DataFrame f) = index f"
| "obj_index (Series s) = sindex s"
| "obj_index (Scalar v) = []"

fun is_Scalar :: "pyobj \<Rightarrow> bool" where
  "is_Scalar (Scalar v) = True"
| "is_Scalar x = False"

fun is_Str :: "val \<Rightarrow> bool" where
  "is_Str (Str s) = True"
| "is_Str v = False"

definition reindex :: "val list \<Rightarrow> val list \<Rightarrow> val list \<Rightarrow> val list" where
  "reindex old new vs =
     map (\<lambda>l. case map_of (zip old vs) l of None \<Rightarrow> PyNone | Some v \<Rightarrow> v) new"

definition pd_concat :: "pyobj list \<Rightarrow> pyerr + frame" where
  "pd_concat objs =
     (if objs = [] then Inl (ValueError ''No objects to concatenate'')
      else if list_ex is_Scalar objs then Inl (TypeError ''cannot concatenate object'')
      else if list_all (\<lambda>x. obj_index x = obj_index (hd objs)) objs
      then Inr \<lparr>columns = concat (concat_columns 0 objs), index = obj_index (hd objs)\<rparr>
      else if list_all (\<lambda>x. distinct (obj_index x) \<and> list_all is_Str (obj_index x)) objs
      then (let new = select_not (duplicated (concat (map obj_index objs)))
                        (concat (map obj_index objs))
            in Inr \<lparr>columns = concat (map (\<lambda>(x, cs). map (\<lambda>(l, vs). (l, reindex (obj_index x) new vs)) cs)
                                   (zip objs (concat_columns 0 objs))),
                     index = new\<rparr>)
      else Inl (NotModelled ''union of row labels''))"

section \<open>The class \<^verbatim>\<open>FeaturePipeline\<close>\<close>

subsection \<open>\<^verbatim>\<open>add_transformation\<close>\<close>

text \<open>
  \<^verbatim>\<open>transformation_f in self.transformations\<close> compares the function object with every
  element of the list.  Neither class defines \<^verbatim>\<open>__eq__\<close>, so the comparison is object
  identity, and the elements of the list are the \<^verbatim>\<open>Transformation\<close> instances.
\<close>

datatype pyref = FunctionRef nat | TransformationRef nat

definition py_eq :: "pyref \<Rightarrow> pyref \<Rightarrow> bool" where
  "py_eq a b = (a = b)"

definition py_in :: "pyfunction \<Rightarrow> transformation list \<Rightarrow> bool" where
  "py_in f ts = list_ex (\<lambda>i. py_eq (FunctionRef (fid f)) (TransformationRef i)) [0..<length ts]"

definition add_transformation ::
  "state \<Rightarrow> cols \<Rightarrow> pyfunction \<Rightarrow> (string \<times> pyobj) list option \<Rightarrow> out_name \<Rightarrow> string \<Rightarrow> pyerr + state" where
  "add_transformation st on_cols f targs nm tt =
     (if py_in f (transformations st)
      then Inr (st\<lparr>printed := printed st @ [AlreadyAdded (fid f)]\<rparr>)
      else if \<not> attrs_settable f then Inl (AttributeError ''logger'')
      else
        (let st1 = st\<lparr>fn_logger := (fn_logger st)(fid f := Some (logger st))\<rparr>;
             oc = (case on_cols of Col c \<Rightarrow> Cols [c] | Cols cs \<Rightarrow> Cols cs)
         in Inr (st1\<lparr>transformations := transformations st1 @ [Transformation oc f nm targs tt]\<rparr>)))"

subsection \<open>\<^verbatim>\<open>get_args\<close>\<close>

definition on_col_list :: "transformation \<Rightarrow> string list" where
  "on_col_list t = (case on_col t of Col c \<Rightarrow> [c] | Cols cs \<Rightarrow> cs)"

text \<open>
  One turn of the loop over the input names.  The bare \<^verbatim>\<open>except\<close> turns every failure
  of \<^verbatim>\<open>transformed_df[c]\<close> into the exception that names the column.
\<close>

definition not_found :: "string \<Rightarrow> pyerr" where
  "not_found c = Exception (''Column '' @ c @ '' not found in input dataframes'')"

definition resolve_col :: "frame \<Rightarrow> pyobj option \<Rightarrow> string \<Rightarrow> pyerr + pyobj" where
  "resolve_col df tdf c =
     (if has_column df c then frame_getitem df c
      else (case py_getitem tdf c of Inl e \<Rightarrow> Inl (not_found c) | Inr s \<Rightarrow> Inr s))"

definition resolve :: "string list \<Rightarrow> frame \<Rightarrow> pyobj option \<Rightarrow> pyerr + pyobj list" where
  "resolve cs df tdf = collect (map (resolve_col df tdf) cs)"

definition shape0 :: "pyobj \<Rightarrow> nat" where
  "shape0 x = length (obj_index x)"

definition get_args :: "transformation \<Rightarrow> frame \<Rightarrow> pyobj option \<Rightarrow> pyerr + (string \<times> pyobj) list" where
  "get_args t df tdf =
     (case resolve (on_col_list t) df tdf of
        Inl e \<Rightarrow> Inl e
      | Inr list_of_series \<Rightarrow>
          (case
             (if transform_type t = ''series''
              then Inr (map (\<lambda>(i, l). (''ser'' @ string_of_nat (i + 1), l)) (enumerate 0 list_of_series))
              else if transform_type t = ''dataframe''
              then (case pd_concat list_of_series of
                      Inl e \<Rightarrow> Inl e
                    | Inr arg_df \<Rightarrow>
                        (if length (index arg_df) = shape0 (hd list_of_series)
                         then Inr [(''df'', DataFrame arg_df)]
                         else Inl (AssertionError
                                ''Argument dataframe has different shape than concatenated series'')))
              else Inl (Exception ''Unknwon transform type''))
           of
             Inl e \<Rightarrow> Inl e
           | Inr args \<Rightarrow>
               (case transformation_args t of
                  None \<Rightarrow> Inr args
                | Some targs \<Rightarrow> if targs = [] then Inr args else Inr (dict_update args targs))))"


subsection \<open>Row identity\<close>

text \<open>
  The head of \<^verbatim>\<open>apply_transformations\<close>: repeated column labels are dropped, then, when
  identity columns are given, the key of a row is \<^verbatim>\<open>"".join\<close> of its cells in these
  columns (\<^verbatim>\<open>join\<close> accepts strings only), the key column is stored as \<^verbatim>\<open>INDEX\<close>, rows
  repeating a key are dropped, the keys become the row labels and \<^verbatim>\<open>INDEX\<close> is deleted.
\<close>

definition dedup_columns :: "frame \<Rightarrow> frame" where
  "dedup_columns df = df\<lparr>columns := select_not (duplicated (map fst (columns df))) (columns df)\<rparr>"

fun str_join :: "val list \<Rightarrow> pyerr + string" where
  "str_join [] = Inr []"
| "str_join (Str s # vs) = (case str_join vs of Inl e \<Rightarrow> Inl e | Inr r \<Rightarrow> Inr (s @ r))"
| "str_join (v # vs) = Inl (TypeError ''sequence item: expected str instance'')"

definition select_columns :: "frame \<Rightarrow> string list \<Rightarrow> pyerr + val list list" where
  "select_columns df cs =
     collect (map (\<lambda>c. case map_of (columns df) (Str c) of
                          None \<Rightarrow> Inl (KeyError c)
                        | Some vs \<Rightarrow> Inr vs) cs)"

definition row_keys :: "frame \<Rightarrow> string list \<Rightarrow> pyerr + string list" where
  "row_keys df index_cols =
     (case select_columns df index_cols of
        Inl e \<Rightarrow> Inl e
      | Inr sel \<Rightarrow>
          (if \<not> distinct index_cols then Inl (NotModelled ''repeated identity column'')
           else if index df = [] then Inl (NotModelled ''row-wise apply on a table without rows'')
           else collect (map (\<lambda>i. str_join (map (\<lambda>vs. vs ! i) sel)) [0..<length (index df)])))"

definition set_column :: "frame \<Rightarrow> string \<Rightarrow> val list \<Rightarrow> frame" where
  "set_column df c vs =
     (if has_column df c
      then df\<lparr>columns := map (\<lambda>(l, ws). if l = Str c then (l, vs) else (l, ws)) (columns df)\<rparr>
      else df\<lparr>columns := columns df @ [(Str c, vs)]\<rparr>)"

definition del_column :: "frame \<Rightarrow> string \<Rightarrow> frame" where
  "del_column df c = df\<lparr>columns := filter (\<lambda>(l, ws). l \<noteq> Str c) (columns df)\<rparr>"

definition drop_rows :: "bool list \<Rightarrow> frame \<Rightarrow> frame" where
  "drop_rows dups df =
     \<lparr>columns = map (\<lambda>(l, ws). (l, select_not dups ws)) (columns df),
      index = select_not dups (index df)\<rparr>"

definition row_identity :: "frame \<Rightarrow> string list option \<Rightarrow> pyerr + frame \<times> val list" where
  "row_identity df0 index_cols =
     (let df = dedup_columns df0 in
      case index_cols of
        None \<Rightarrow> Inr (df, index df)
      | Some ic \<Rightarrow>
          (if ic = [] then Inr (df, index df)
           else (case row_keys df ic of
                   Inl e \<Rightarrow> Inl e
                 | Inr keys \<Rightarrow>
                     (let df1 = set_column df ''INDEX'' (map Str keys);
                          df2 = drop_rows (duplicated keys) df1;
                          index_list = map Str (select_not (duplicated keys) keys);
                          df3 = df2\<lparr>index := index_list\<rparr>
                      in Inr (del_column df3 ''INDEX'', index_list)))))"

subsection \<open>\<^verbatim>\<open>apply_transformations\<close>\<close>

text \<open>\<^verbatim>\<open>tdf.index = index_list\<close> needs as many labels as the fragment has rows.\<close>

definition set_index :: "pyobj \<Rightarrow> val list \<Rightarrow> pyerr + pyobj" where
  "set_index tdf index_list =
     (case tdf of
        DataFrame f \<Rightarrow>
          (if length index_list = length (index f) then Inr (DataFrame (f\<lparr>index := index_list\<rparr>))
           else Inl (ValueError ''Length mismatch''))
      | Series s \<Rightarrow>
          (if length index_list = length (sindex s) then Inr (Series (s\<lparr>sindex := index_list\<rparr>))
           else Inl (ValueError ''Length mismatch''))
      | Scalar v \<Rightarrow> Inl (AttributeError ''index''))"

text \<open>
  The two branches of the loop body after \<^verbatim>\<open>t.apply(args)\<close>: the first fragment becomes
  the running result, a later one is concatenated to it column-wise.
\<close>

definition merge :: "pyobj option \<Rightarrow> pyobj \<Rightarrow> val list \<Rightarrow> pyerr + pyobj" where
  "merge tdf frag index_list =
     (case set_index frag index_list of
        Inl e \<Rightarrow> Inl e
      | Inr frag' \<Rightarrow>
          (case tdf of
             None \<Rightarrow> Inr frag'
           | Some acc \<Rightarrow>
               (case pd_concat [acc, frag'] of Inl e \<Rightarrow> Inl e | Inr m \<Rightarrow> Inr (DataFrame m))))"

text \<open>
  The body of the loop over \<^verbatim>\<open>self.transformations\<close> for the unit \<open>t\<close> at position
  \<open>i\<close>.  \<open>tdf\<close> is the local running result; an exception leaves the loop with the
  state as it is then.
\<close>

definition loop_body ::
  "frame \<Rightarrow> val list \<Rightarrow> bool \<Rightarrow> nat \<Rightarrow> transformation \<Rightarrow> pyobj option \<Rightarrow> state
     \<Rightarrow> state \<times> (pyerr + pyobj option)" where
  "loop_body df index_list reapply_all i t tdf st =
     (if transformation_applied t \<and> \<not> reapply_all
      then (st\<lparr>printed := printed st @ [AppliedSkipping i]\<rparr>, Inr tdf)
      else
        (case get_args t df tdf of
           Inl e \<Rightarrow> (st, Inl e)
         | Inr args \<Rightarrow>
             (case Transformation_apply t args st of
                (st1, Inl e) \<Rightarrow> (st1, Inl e)
              | (st1, Inr (frag, t')) \<Rightarrow>
                  (let st2 = st1\<lparr>transformations := (transformations st1)[i := t']\<rparr> in
                   case merge tdf frag index_list of
                     Inl e \<Rightarrow> (st2, Inl e)
                   | Inr new \<Rightarrow> (st2\<lparr>transformed_df := Some new\<rparr>, Inr (Some new))))))"

fun run_transformations ::
  "frame \<Rightarrow> val list \<Rightarrow> bool \<Rightarrow> nat \<Rightarrow> transformation list \<Rightarrow> pyobj option \<Rightarrow> state
     \<Rightarrow> state \<times> (pyerr + pyobj option)" where
  "run_transformations df index_list reapply_all i [] tdf st = (st, Inr tdf)"
| "run_transformations df index_list reapply_all i (t # ts) tdf st =
     (case loop_body df index_list reapply_all i t tdf st of
        (st', Inl e) \<Rightarrow> (st', Inl e)
      | (st', Inr tdf') \<Rightarrow> run_transformations df index_list reapply_all (Suc i) ts tdf' st')"

definition apply_transformations ::
  "state \<Rightarrow> frame \<Rightarrow> string list option \<Rightarrow> bool \<Rightarrow> state \<times> (pyerr + pyobj option)" where
  "apply_transformations st df index_cols reapply_all =
     (case row_identity df index_cols of
        Inl e \<Rightarrow> (st, Inl e)
      | Inr (df', index_list) \<Rightarrow>
          run_transformations df' index_list reapply_all 0 (transformations st) (transformed_df st) st)"


section \<open>The functions and tables of the demonstration\<close>

text \<open>
  \<^verbatim>\<open>transforms_above_threshold(ser1, threshold)\<close> of the notebook: both parameters are
  required, so a call binds when it names exactly these two or passes two values.
  \<^verbatim>\<open>ser1 > threshold\<close> compares every cell with the number; comparing a string with a
  number is Python's \<^verbatim>\<open>TypeError\<close>, a missing cell compares false.  The result is an
  unnamed series with the row labels of \<^verbatim>\<open>ser1\<close>.  On a table the comparison is made
  cell by cell as well, and \<^verbatim>\<open>pd.Series\<close> then refuses the two-dimensional array with a
  \<^verbatim>\<open>ValueError\<close>.  Other operands are outside the model.
\<close>

definition above_threshold :: "pyobj \<Rightarrow> pyobj \<Rightarrow> outcome" where
  "above_threshold ser1 threshold =
     (case (ser1, threshold) of
        (Series s, Scalar (Num th)) \<Rightarrow>
          (if list_ex is_Str (svalues s)
           then Raises (TypeError ''> not supported between instances of str and int'')
           else Returns (Series \<lparr>sname = PyNone,
                   svalues = map (\<lambda>v. case v of Num n \<Rightarrow> Num (if th < n then 1 else 0) | _ \<Rightarrow> Num 0)
                               (svalues s),
                   sindex = sindex s\<rparr>))
      | (DataFrame f, Scalar (Num th)) \<Rightarrow>
          (if list_ex (\<lambda>(l, vs). list_ex is_Str vs) (columns f)
           then Raises (TypeError ''> not supported between instances of str and int'')
           else Raises (ValueError ''Data must be 1-dimensional''))
      | _ \<Rightarrow> Raises (NotModelled ''comparison of other operands''))"

definition transforms_above_threshold_code :: "call \<Rightarrow> outcome" where
  "transforms_above_threshold_code c =
     (case c of
        Named kw \<Rightarrow>
          (case (map_of kw ''ser1'', map_of kw ''threshold'') of
             (Some a, Some b) \<Rightarrow> if length kw = 2 then above_threshold a b else SignatureMismatch
           | _ \<Rightarrow> SignatureMismatch)
      | Positional ps \<Rightarrow>
          (case ps of [a, b] \<Rightarrow> above_threshold a b | _ \<Rightarrow> SignatureMismatch))"

definition transforms_above_threshold :: pyfunction where
  "transforms_above_threshold =
     \<lparr>fid = 1, code = transforms_above_threshold_code, attrs_settable = True\<rparr>"

text \<open>
  The example of the specification: \<^verbatim>\<open>ID=[1,2,2]\<close>, \<^verbatim>\<open>Amount=[100,600,600]\<close>, and the
  same table with strings as identifiers.
\<close>

definition raw_num_id :: frame where
  "raw_num_id =
     \<lparr>columns = [(Str ''ID'', [Num 1, Num 2, Num 2]), (Str ''Amount'', [Num 100, Num 600, Num 600])],
      index = [Num 0, Num 1, Num 2]\<rparr>"

definition raw_str_id :: frame where
  "raw_str_id =
     \<lparr>columns = [(Str ''ID'', [Str ''a'', Str ''b'', Str ''b'']),
                 (Str ''Amount'', [Num 100, Num 600, Num 600])],
      index = [Num 0, Num 1, Num 2]\<rparr>"

definition engine0 :: state where
  "engine0 = FeaturePipeline None (\<lambda>f. None)"


text \<open>Units and arguments used as concrete inputs below.\<close>

definition always_returns :: "nat \<Rightarrow> pyobj \<Rightarrow> pyfunction" where
  "always_returns n r = \<lparr>fid = n, code = (\<lambda>c. Returns r), attrs_settable = True\<rparr>"

definition always_raises :: "nat \<Rightarrow> pyerr \<Rightarrow> pyfunction" where
  "always_raises n e = \<lparr>fid = n, code = (\<lambda>c. Raises e), attrs_settable = True\<rparr>"

definition two_columns :: frame where
  "two_columns =
     \<lparr>columns = [(Num 0, [Num 1, Num 2]), (Str ''x'', [Num 3, Num 4])],
      index = [Str ''q'', Str ''p'']\<rparr>"

definition threshold_500 :: "(string \<times> pyobj) list" where
  "threshold_500 = [(''threshold'', Scalar (Num 500))]"

definition unit_threshold :: "string \<Rightarrow> out_name \<Rightarrow> transformation" where
  "unit_threshold c nm =
     Transformation (Cols [c]) transforms_above_threshold nm (Some threshold_500) ''series''"

definition unit_high :: transformation where
  "unit_high = unit_threshold ''Amount'' (Name ''HighAmount'')"

definition unit_frame :: "out_name \<Rightarrow> transformation" where
  "unit_frame nm =
     Transformation (Cols [''Amount'']) (always_returns 2 (DataFrame two_columns)) nm None ''series''"

definition args_amount :: "(string \<times> pyobj) list" where
  "args_amount =
     [(''ser1'', Series \<lparr>sname = Str ''Amount'', svalues = [Num 100, Num 600],
                        sindex = [Str ''a'', Str ''b'']\<rparr>),
      (''threshold'', Scalar (Num 500))]"

definition args_id :: "(string \<times> pyobj) list" where
  "args_id =
     [(''ser1'', Series \<lparr>sname = Str ''ID'', svalues = [Str ''a'', Str ''b''],
                        sindex = [Str ''a'', Str ''b'']\<rparr>),
      (''threshold'', Scalar (Num 500))]"

definition engine1 :: state where
  "engine1 = engine0\<lparr>transformations := [unit_high], fn_logger := (\<lambda>f. None)(1 := Some None)\<rparr>"

definition engine_logging :: state where
  "engine_logging = FeaturePipeline (Some 7) (\<lambda>f. None)"

section \<open>Notions used to state the properties\<close>

text \<open>
  The columns of a table that carry a given label; a well-formed table has all its
  columns as long as its index.  \<open>first_occurrences\<close> are the positions of a list whose
  element does not occur at an earlier position, and \<open>take_rows\<close> restricts a table to
  given row positions.
\<close>

definition column_of :: "frame \<Rightarrow> string \<Rightarrow> val list list" where
  "column_of df c = map snd (filter (\<lambda>(l, vs). l = Str c) (columns df))"

definition wf_frame :: "frame \<Rightarrow> bool" where
  "wf_frame df = list_all (\<lambda>(l, vs). length vs = length (index df)) (columns df)"

definition first_occurrences :: "'a list \<Rightarrow> nat list" where
  "first_occurrences ks = filter (\<lambda>i. ks ! i \<notin> set (take i ks)) [0..<length ks]"

definition take_rows :: "nat list \<Rightarrow> frame \<Rightarrow> frame" where
  "take_rows rows df =
     \<lparr>columns = map (\<lambda>(l, vs). (l, map ((!) vs) rows)) (columns df),
      index = map ((!) (index df)) rows\<rparr>"

text \<open>
  The row key as the specification words it: the concatenation of the string
  representations of the cells of the row in the identity columns (the first column
  of each label).
\<close>

definition cell :: "frame \<Rightarrow> string \<Rightarrow> nat \<Rightarrow> val" where
  "cell df c i = (case map_of (columns df) (Str c) of None \<Rightarrow> PyNone | Some vs \<Rightarrow> vs ! i)"

definition spec_row_key :: "frame \<Rightarrow> string list \<Rightarrow> nat \<Rightarrow> string" where
  "spec_row_key df ic i = concat (map (\<lambda>c. py_str (cell df c i)) ic)"

definition spec_row_keys :: "frame \<Rightarrow> string list \<Rightarrow> string list" where
  "spec_row_keys df ic = map (spec_row_key df ic) [0..<length (index df)]"

definition string_valued :: "frame \<Rightarrow> string list \<Rightarrow> bool" where
  "string_valued df ic =
     list_all (\<lambda>c. case map_of (columns df) (Str c) of
                     None \<Rightarrow> False
                   | Some vs \<Rightarrow> list_all is_Str vs) ic"

text \<open>
  The rows kept by the row identity step, as the specification words it: the keys of
  the first occurrences, and the table restricted to these rows under these labels.
\<close>

definition kept_keys :: "frame \<Rightarrow> string list \<Rightarrow> val list" where
  "kept_keys df ic =
     map (\<lambda>i. Str (spec_row_keys df ic ! i)) (first_occurrences (spec_row_keys df ic))"

definition deduplicated_table :: "frame \<Rightarrow> string list \<Rightarrow> frame" where
  "deduplicated_table df ic =
     (take_rows (first_occurrences (spec_row_keys df ic)) (del_column (dedup_columns df) ''INDEX''))
       \<lparr>index := kept_keys df ic\<rparr>"

text \<open>The working table of the example after the row identity step, and its feature table.\<close>

definition work_table :: frame where
  "work_table =
     \<lparr>columns = [(Str ''ID'', [Str ''a'', Str ''b'']), (Str ''Amount'', [Num 100, Num 600])],
      index = [Str ''a'', Str ''b'']\<rparr>"

definition high_table :: frame where
  "high_table = \<lparr>columns = [(Str ''HighAmount'', [Num 0, Num 1])], index = [Str ''a'', Str ''b'']\<rparr>"

text \<open>A running result carries the row labels \<open>il\<close> (an absent one carries any).\<close>

definition labelled :: "val list \<Rightarrow> pyobj option \<Rightarrow> bool" where
  "labelled il tdf = (case tdf of None \<Rightarrow> True | Some x \<Rightarrow> obj_index x = il)"

text \<open>
  A function that returns what \<open>f\<close> returns under other row labels (\<open>\<rho>\<close> gives
  the labels for each call; they apply where their number fits), and an engine whose
  functions are replaced so.
\<close>

definition relabel :: "val list \<Rightarrow> pyobj \<Rightarrow> pyobj" where
  "relabel ix x =
     (case x of
        DataFrame f \<Rightarrow> if length ix = length (index f) then DataFrame (f\<lparr>index := ix\<rparr>) else x
      | Series s \<Rightarrow> if length ix = length (sindex s) then Series (s\<lparr>sindex := ix\<rparr>) else x
      | Scalar v \<Rightarrow> x)"

definition relabelled :: "(call \<Rightarrow> val list) \<Rightarrow> pyfunction \<Rightarrow> pyfunction" where
  "relabelled \<rho> f =
     f\<lparr>code := (\<lambda>c. case code f c of Returns x \<Rightarrow> Returns (relabel (\<rho> c) x) | other \<Rightarrow> other)\<rparr>"

definition relabel_unit :: "(call \<Rightarrow> val list) \<Rightarrow> transformation \<Rightarrow> transformation" where
  "relabel_unit \<rho> t = t\<lparr>transformation_f := relabelled \<rho> (transformation_f t)\<rparr>"

definition relabel_state :: "(call \<Rightarrow> val list) \<Rightarrow> state \<Rightarrow> state" where
  "relabel_state \<rho> st = st\<lparr>transformations := map (relabel_unit \<rho>) (transformations st)\<rparr>"

text \<open>Engines of the example before and after the first unit has run.\<close>

definition engine_of :: "transformation list \<Rightarrow> state" where
  "engine_of ts = engine0\<lparr>transformations := ts, fn_logger := (\<lambda>f. None)(1 := Some None)\<rparr>"

definition after_high :: "transformation list \<Rightarrow> state" where
  "after_high rest =
     (engine_of (unit_high\<lparr>transformation_applied := True\<rparr> # rest))
       \<lparr>transformed_df := Some (DataFrame high_table), called := [(1, Named args_amount)]\<rparr>"

definition raw_other :: frame where
  "raw_other =
     \<lparr>columns = [(Str ''ID'', [Str ''c'']), (Str ''Amount'', [Num 700])], index = [Num 0]\<rparr>"

definition other_labels :: "call \<Rightarrow> val list" where
  "other_labels c = [Str ''y'', Str ''x'']"

text \<open>
  A function that doubles a series and names the result, as
  \<^verbatim>\<open>def doubled(ser1): return (ser1 * 2).rename('Double')\<close>, and a unit that registers it
  without an output name.
\<close>

definition doubled_body :: "pyobj \<Rightarrow> outcome" where
  "doubled_body x =
     (case x of
        Series s \<Rightarrow>
          Returns (Series \<lparr>sname = Str ''Double'',
                    svalues = map (\<lambda>v. case v of Num n \<Rightarrow> Num (2 * n) | Str t \<Rightarrow> Str (t @ t)
                                       | PyNone \<Rightarrow> PyNone) (svalues s),
                    sindex = sindex s\<rparr>)
      | _ \<Rightarrow> Raises (OtherError ''not a series''))"

definition doubled_code :: "call \<Rightarrow> outcome" where
  "doubled_code c =
     (case c of
        Named kw \<Rightarrow>
          (case kw of
             [(k, x)] \<Rightarrow> if k = ''ser1'' then doubled_body x else SignatureMismatch
           | _ \<Rightarrow> SignatureMismatch)
      | Positional ps \<Rightarrow> (case ps of [x] \<Rightarrow> doubled_body x | _ \<Rightarrow> SignatureMismatch))"

definition doubled :: pyfunction where
  "doubled = \<lparr>fid = 5, code = doubled_code, attrs_settable = True\<rparr>"

definition unit_doubled :: transformation where
  "unit_doubled = Transformation (Cols [''Amount'']) doubled NoName None ''series''"

text \<open>
  The columns of a pandas object (a series is one column under its name), whether it
  carries a column label of its own (an unnamed series is numbered by \<^verbatim>\<open>pd.concat\<close>),
  and the same for the running result, which is absent before the first fragment.
\<close>

fun obj_columns :: "pyobj \<Rightarrow> (val \<times> val list) list" where
  "obj_columns (DataFrame f) = columns f"
| "obj_columns (Series s) = [(sname s, svalues s)]"
| "obj_columns (Scalar v) = []"

fun named :: "pyobj \<Rightarrow> bool" where
  "named (Series s) = (sname s \<noteq> PyNone)"
| "named x = True"

definition held_columns :: "pyobj option \<Rightarrow> (val \<times> val list) list" where
  "held_columns tdf = (case tdf of None \<Rightarrow> [] | Some x \<Rightarrow> obj_columns x)"

definition held_named :: "pyobj option \<Rightarrow> bool" where
  "held_named tdf = (case tdf of None \<Rightarrow> True | Some x \<Rightarrow> named x)"

text \<open>
  The fragments of a run of the loop: what \<^verbatim>\<open>t.apply(args)\<close> returned for every unit
  that was executed and merged, in order.  A skipped unit contributes none.
\<close>

definition unit_fragment :: "frame \<Rightarrow> bool \<Rightarrow> transformation \<Rightarrow> pyobj option \<Rightarrow> state \<Rightarrow> pyobj list" where
  "unit_fragment df r t tdf st =
     (if transformation_applied t \<and> \<not> r then []
      else (case get_args t df tdf of
              Inl e \<Rightarrow> []
            | Inr args \<Rightarrow>
                (case Transformation_apply t args st of
                   (st1, Inl e) \<Rightarrow> []
                 | (st1, Inr (frag, t')) \<Rightarrow> [frag])))"

fun fragments ::
  "frame \<Rightarrow> val list \<Rightarrow> bool \<Rightarrow> nat \<Rightarrow> transformation list \<Rightarrow> pyobj option \<Rightarrow> state \<Rightarrow> pyobj list" where
  "fragments df il r i [] tdf st = []"
| "fragments df il r i (t # ts) tdf st =
     (case loop_body df il r i t tdf st of
        (st', Inl e) \<Rightarrow> []
      | (st', Inr tdf') \<Rightarrow> unit_fragment df r t tdf st @ fragments df il r (Suc i) ts tdf' st')"

text \<open>
  The calls one invocation of a unit makes: the named call, and the positional one
  exactly when the named call ended in a \<^verbatim>\<open>TypeError\<close>.
\<close>

definition retried :: "pyfunction \<Rightarrow> (string \<times> pyobj) list \<Rightarrow> bool" where
  "retried f args =
     (case code f (Named args) of
        Returns x \<Rightarrow> False
      | SignatureMismatch \<Rightarrow> True
      | Raises e \<Rightarrow> is_TypeError e)"

definition calls_of :: "pyfunction \<Rightarrow> (string \<times> pyobj) list \<Rightarrow> (nat \<times> call) list" where
  "calls_of f args =
     (fid f, Named args) # (if retried f args then [(fid f, Positional (map snd args))] else [])"

text \<open>
  A second unit on the same column, a unit whose function raises, and the engine of the
  example after its first two units have run.
\<close>

definition two_features :: frame where
  "two_features =
     \<lparr>columns = [(Str ''HighAmount'', [Num 0, Num 1]), (Str ''Again'', [Num 0, Num 1])],
      index = [Str ''a'', Str ''b'']\<rparr>"

definition unit_again :: transformation where
  "unit_again = unit_threshold ''Amount'' (Name ''Again'')"

definition after_two :: "transformation list \<Rightarrow> state" where
  "after_two rest =
     (engine_of (unit_high\<lparr>transformation_applied := True\<rparr>
                 # unit_again\<lparr>transformation_applied := True\<rparr> # rest))
       \<lparr>transformed_df := Some (DataFrame two_features),
        called := [(1, Named args_amount), (1, Named args_amount)]\<rparr>"

definition unit_zero :: transformation where
  "unit_zero =
     Transformation (Cols [''Amount'']) (always_raises 3 (OtherError ''ZeroDivisionError''))
       (Name ''Z'') None ''series''"

definition ser_amount :: "(string \<times> pyobj) list" where
  "ser_amount =
     [(''ser1'', Series \<lparr>sname = Str ''Amount'', svalues = [Num 100, Num 600],
                        sindex = [Str ''a'', Str ''b'']\<rparr>)]"

text \<open>
  A function on tables, as \<^verbatim>\<open>def doubled_table(df): return df * 2\<close>, registered with
  \<^verbatim>\<open>transform_type='dataframe'\<close> on one column under the output name \<^verbatim>\<open>Double\<close>.
\<close>

definition double_cell :: "val \<Rightarrow> val" where
  "double_cell v = (case v of Num n \<Rightarrow> Num (2 * n) | Str t \<Rightarrow> Str (t @ t) | PyNone \<Rightarrow> PyNone)"

definition doubled_table_body :: "pyobj \<Rightarrow> outcome" where
  "doubled_table_body x =
     (case x of
        DataFrame f \<Rightarrow>
          Returns (DataFrame (f\<lparr>columns := map (\<lambda>(l, vs). (l, map double_cell vs)) (columns f)\<rparr>))
      | Series s \<Rightarrow> Returns (Series (s\<lparr>svalues := map double_cell (svalues s)\<rparr>))
      | Scalar v \<Rightarrow> Returns (Scalar (double_cell v)))"

definition doubled_table_code :: "call \<Rightarrow> outcome" where
  "doubled_table_code c =
     (case c of
        Named kw \<Rightarrow>
          (case kw of
             [(k, x)] \<Rightarrow> if k = ''df'' then doubled_table_body x else SignatureMismatch
           | _ \<Rightarrow> SignatureMismatch)
      | Positional ps \<Rightarrow> (case ps of [x] \<Rightarrow> doubled_table_body x | _ \<Rightarrow> SignatureMismatch))"

definition doubled_table :: pyfunction where
  "doubled_table = \<lparr>fid = 6, code = doubled_table_code, attrs_settable = True\<rparr>"

definition unit_doubled_table :: transformation where
  "unit_doubled_table =
     Transformation (Cols [''Amount'']) doubled_table (Name ''Double'') None ''dataframe''"

definition amount_table :: frame where
  "amount_table =
     \<lparr>columns = [(Str ''Amount'', [Num 100, Num 600])], index = [Str ''a'', Str ''b'']\<rparr>"

section \<open>Properties of \<^verbatim>\<open>Transformation.apply\<close>\<close>

lemmas example_defs =
  always_returns_def always_raises_def two_columns_def threshold_500_def unit_threshold_def
  unit_high_def unit_frame_def args_amount_def args_id_def engine0_def engine1_def
  engine_logging_def FeaturePipeline_def Transformation_def transforms_above_threshold_def
  transforms_above_threshold_code_def above_threshold_def

lemmas decimal_defs = string_of_int_def string_of_nat.simps digit_char_def

lemma Transformation_apply_after_call:
  assumes "call_transformation_f (transformation_f t) args st = (st', Inr tdf)"
  shows "Transformation_apply t args st =
           (case rename (name t) tdf of
              Inl e \<Rightarrow> (st', Inl e)
            | Inr tdf1 \<Rightarrow>
                (case reset_index tdf1 of
                   Inl e \<Rightarrow> (st', Inl e)
                 | Inr tdf2 \<Rightarrow> (st', Inr (tdf2, t\<lparr>transformation_applied := True\<rparr>))))"
  using assms by (simp add: Transformation_apply_def)

lemma call_threshold_amount:
  "call_transformation_f (transformation_f (unit_threshold c nm)) args_amount engine0 =
     (engine0\<lparr>called := [(1, Named args_amount)]\<rparr>,
      Inr (Series \<lparr>sname = PyNone, svalues = [Num 0, Num 1], sindex = [Str ''a'', Str ''b'']\<rparr>))"
  by (simp add: call_transformation_f_def call_f_def example_defs)

lemma call_unit_frame:
  "call_transformation_f (transformation_f (unit_frame nm)) [] engine0 =
     (engine0\<lparr>called := [(2, Named [])]\<rparr>, Inr (DataFrame two_columns))"
  by (simp add: call_transformation_f_def call_f_def example_defs)

lemma name_examples [simp]:
  "name (unit_threshold c nm) = nm" "name (unit_frame nm) = nm"
  by (simp_all add: unit_threshold_def unit_frame_def Transformation_def)

text \<open>
  C7 (as amended).  \<^verbatim>\<open>apply\<close> first calls the function with the arguments as named
  parameters.  A value it returns is the result, and an exception that is not a
  \<^verbatim>\<open>TypeError\<close> propagates, with no second call.  Every \<^verbatim>\<open>TypeError\<close> of that call, from
  a signature mismatch or from the function's own logic alike, is caught: the function
  is called once more with the same values positionally, in the insertion order of the
  mapping, and the outcome of this second call is the outcome of \<^verbatim>\<open>apply\<close>.
\<close>

theorem invoke_calling_discipline:
  "(code f (Named args) = Returns r \<longrightarrow>
      call_transformation_f f args st = (st\<lparr>called := called st @ [(fid f, Named args)]\<rparr>, Inr r))
 \<and> (code f (Named args) = Raises e \<and> \<not> is_TypeError e \<longrightarrow>
      call_transformation_f f args st = (st\<lparr>called := called st @ [(fid f, Named args)]\<rparr>, Inl e))
 \<and> (code f (Named args) = SignatureMismatch \<or> code f (Named args) = Raises (TypeError m) \<longrightarrow>
      call_transformation_f f args st =
        (st\<lparr>called := called st @ [(fid f, Named args), (fid f, Positional (map snd args))]\<rparr>,
         case code f (Positional (map snd args)) of
           Returns r' \<Rightarrow> Inr r'
         | SignatureMismatch \<Rightarrow> Inl (TypeError ''arguments do not match the signature'')
         | Raises e' \<Rightarrow> Inl e'))"
  by (auto simp add: call_transformation_f_def call_positional_def call_f_def split: outcome.splits)

theorem invoke_calling_discipline_witness:
  "call_transformation_f transforms_above_threshold args_amount engine0 =
     (engine0\<lparr>called := [(1, Named args_amount)]\<rparr>,
      Inr (Series \<lparr>sname = PyNone, svalues = [Num 0, Num 1], sindex = [Str ''a'', Str ''b'']\<rparr>))
   \<and> call_transformation_f (always_raises 3 (OtherError ''ZeroDivisionError'')) args_amount engine0 =
     (engine0\<lparr>called := [(3, Named args_amount)]\<rparr>, Inl (OtherError ''ZeroDivisionError''))
   \<and> call_transformation_f transforms_above_threshold [(''ser1'', Scalar (Num 1))] engine0 =
     (engine0\<lparr>called := [(1, Named [(''ser1'', Scalar (Num 1))]), (1, Positional [Scalar (Num 1)])]\<rparr>,
      Inl (TypeError ''arguments do not match the signature''))"
proof -
  have a: "code transforms_above_threshold (Named args_amount) =
      Returns (Series \<lparr>sname = PyNone, svalues = [Num 0, Num 1], sindex = [Str ''a'', Str ''b'']\<rparr>)"
    by (simp add: example_defs)
  have b: "code (always_raises 3 (OtherError ''ZeroDivisionError'')) (Named args_amount) =
      Raises (OtherError ''ZeroDivisionError'')
      \<and> \<not> is_TypeError (OtherError ''ZeroDivisionError'')"
    by (simp add: example_defs)
  have c: "code transforms_above_threshold (Named [(''ser1'', Scalar (Num 1))]) = SignatureMismatch"
    by (simp add: example_defs)
  have d: "code transforms_above_threshold (Positional [Scalar (Num 1)]) = SignatureMismatch"
    by (simp add: example_defs)
  have e: "called engine0 = []"
    by (simp add: example_defs)
  show ?thesis
    using invoke_calling_discipline [where f = transforms_above_threshold and args = args_amount
        and st = engine0] a
      invoke_calling_discipline [where f = "always_raises 3 (OtherError ''ZeroDivisionError'')"
        and args = args_amount and e = "OtherError ''ZeroDivisionError''" and st = engine0] b
      invoke_calling_discipline [where f = transforms_above_threshold
        and args = "[(''ser1'', Scalar (Num 1))]" and st = engine0] c d
    by (simp add: e) (simp add: example_defs)
qed

text \<open>
  C7, the claim as stated, fails on a \<^verbatim>\<open>TypeError\<close> from the function's own logic:
  \<^verbatim>\<open>transforms_above_threshold\<close> binds its named arguments and raises when it compares
  the strings of the column with the threshold, and \<^verbatim>\<open>apply\<close> calls it a second time.
\<close>

theorem type_error_in_body_is_retried:
  "code transforms_above_threshold (Named args_id) =
     Raises (TypeError ''> not supported between instances of str and int'')
   \<and> Transformation_apply unit_high args_id engine0 =
     (engine0\<lparr>called := [(1, Named args_id), (1, Positional (map snd args_id))]\<rparr>,
      Inl (TypeError ''> not supported between instances of str and int''))"
  by (simp add: Transformation_apply_def call_transformation_f_def call_positional_def call_f_def
      example_defs)

text \<open>
  Naming by the type of the result.  When the function returns a series and the unit's
  name is the string \<open>n\<close>, the fragment is a table whose only column is named \<open>n\<close>.
  When it returns a table and the unit's name is a list, the columns take these names by
  position if the list has as many names as the table has columns, and the assignment
  raises otherwise.  When it returns a table and the name is a single string, every
  column label \<open>c\<close> becomes \<open>n_c\<close>, with \<^verbatim>\<open>str(c)\<close> for \<open>c\<close>, whatever the number of
  columns.  The values are kept, the rows are numbered from 0 and the unit is marked
  applied.
\<close>

theorem invoke_names_output:
  assumes "call_transformation_f (transformation_f t) args st = (st', Inr tdf)"
  shows "(name t = Name n \<and> tdf = Series s \<longrightarrow>
            Transformation_apply t args st =
              (st', Inr (DataFrame \<lparr>columns = [(Str n, svalues s)],
                                    index = positional_index (length (sindex s))\<rparr>,
                         t\<lparr>transformation_applied := True\<rparr>)))
       \<and> (name t = Names ns \<and> tdf = DataFrame f \<longrightarrow>
            Transformation_apply t args st =
              (if length ns = length (columns f)
               then (st', Inr (DataFrame \<lparr>columns = zip (map Str ns) (map snd (columns f)),
                                           index = positional_index (length (index f))\<rparr>,
                                t\<lparr>transformation_applied := True\<rparr>))
               else (st', Inl (ValueError ''Length mismatch''))))
       \<and> (name t = Name n \<and> tdf = DataFrame f \<longrightarrow>
            Transformation_apply t args st =
              (st', Inr (DataFrame
                          \<lparr>columns = map (\<lambda>(c, vs). (Str (n @ ''_'' @ py_str c), vs)) (columns f),
                           index = positional_index (length (index f))\<rparr>,
                         t\<lparr>transformation_applied := True\<rparr>)))"
  by (simp add: Transformation_apply_after_call [OF assms] rename_def reset_index_def)

theorem invoke_names_output_witness:
  "Transformation_apply unit_high args_amount engine0 =
     (engine0\<lparr>called := [(1, Named args_amount)]\<rparr>,
      Inr (DataFrame \<lparr>columns = [(Str ''HighAmount'', [Num 0, Num 1])], index = [Num 0, Num 1]\<rparr>,
           unit_high\<lparr>transformation_applied := True\<rparr>))
   \<and> Transformation_apply (unit_frame (Names [''lo'', ''hi''])) [] engine0 =
     (engine0\<lparr>called := [(2, Named [])]\<rparr>,
      Inr (DataFrame \<lparr>columns = [(Str ''lo'', [Num 1, Num 2]), (Str ''hi'', [Num 3, Num 4])],
                      index = [Num 0, Num 1]\<rparr>,
           unit_frame (Names [''lo'', ''hi''])\<lparr>transformation_applied := True\<rparr>))
   \<and> Transformation_apply (unit_frame (Name ''amt'')) [] engine0 =
     (engine0\<lparr>called := [(2, Named [])]\<rparr>,
      Inr (DataFrame \<lparr>columns = [(Str ''amt_0'', [Num 1, Num 2]), (Str ''amt_x'', [Num 3, Num 4])],
                      index = [Num 0, Num 1]\<rparr>,
           unit_frame (Name ''amt'')\<lparr>transformation_applied := True\<rparr>))"
  using invoke_names_output [OF call_threshold_amount [of "''Amount''" "Name ''HighAmount''"],
      where n = "''HighAmount''"
      and s = "\<lparr>sname = PyNone, svalues = [Num 0, Num 1], sindex = [Str ''a'', Str ''b'']\<rparr>"]
    invoke_names_output [OF call_unit_frame [of "Names [''lo'', ''hi'']"],
      where ns = "[''lo'', ''hi'']" and f = two_columns]
    invoke_names_output [OF call_unit_frame [of "Name ''amt''"], where n = "''amt''" and f = two_columns]
  by (simp add: unit_high_def positional_index_def decimal_defs two_columns_def)

text \<open>
  C10.  A unit without an output name renames nothing: a series the function returns
  stays a series with its name and values, a table keeps its column labels; only the
  rows are numbered anew.  Such a series, as the first fragment of a call, becomes the
  running result as it is, under the canonical row labels.
\<close>

theorem invoke_without_name:
  assumes "call_transformation_f (transformation_f t) args st = (st', Inr tdf)"
    and "name t = NoName"
  shows "(tdf = Series s \<longrightarrow>
            Transformation_apply t args st =
              (st', Inr (Series (s\<lparr>sindex := positional_index (length (sindex s))\<rparr>),
                         t\<lparr>transformation_applied := True\<rparr>))
          \<and> (length index_list = length (sindex s) \<longrightarrow>
               merge None (Series (s\<lparr>sindex := positional_index (length (sindex s))\<rparr>)) index_list =
                 Inr (Series (s\<lparr>sindex := index_list\<rparr>))))
       \<and> (tdf = DataFrame f \<longrightarrow>
            Transformation_apply t args st =
              (st', Inr (DataFrame (f\<lparr>index := positional_index (length (index f))\<rparr>),
                         t\<lparr>transformation_applied := True\<rparr>)))"
  using assms(2)
  by (simp add: Transformation_apply_after_call [OF assms(1)] rename_def reset_index_def
      merge_def set_index_def positional_index_def)

theorem invoke_without_name_witness:
  "Transformation_apply (unit_threshold ''Amount'' NoName) args_amount engine0 =
     (engine0\<lparr>called := [(1, Named args_amount)]\<rparr>,
      Inr (Series \<lparr>sname = PyNone, svalues = [Num 0, Num 1], sindex = [Num 0, Num 1]\<rparr>,
           unit_threshold ''Amount'' NoName\<lparr>transformation_applied := True\<rparr>))
   \<and> merge None (Series \<lparr>sname = PyNone, svalues = [Num 0, Num 1], sindex = [Num 0, Num 1]\<rparr>)
        [Str ''a'', Str ''b''] =
      Inr (Series \<lparr>sname = PyNone, svalues = [Num 0, Num 1], sindex = [Str ''a'', Str ''b'']\<rparr>)
   \<and> Transformation_apply (unit_frame NoName) [] engine0 =
     (engine0\<lparr>called := [(2, Named [])]\<rparr>,
      Inr (DataFrame \<lparr>columns = [(Num 0, [Num 1, Num 2]), (Str ''x'', [Num 3, Num 4])],
                      index = [Num 0, Num 1]\<rparr>,
           unit_frame NoName\<lparr>transformation_applied := True\<rparr>))"
  using invoke_without_name [OF call_threshold_amount [of "''Amount''" NoName],
      where s = "\<lparr>sname = PyNone, svalues = [Num 0, Num 1], sindex = [Str ''a'', Str ''b'']\<rparr>"
      and index_list = "[Str ''a'', Str ''b'']"]
    invoke_without_name [OF call_unit_frame [of NoName], where f = two_columns]
  by (simp add: positional_index_def two_columns_def)

section \<open>Properties of registration\<close>

lemma py_in_False: "\<not> py_in f ts"
  by (simp add: py_in_def py_eq_def list_ex_iff)

text \<open>
  C6.  The membership test of \<^verbatim>\<open>add_transformation\<close> never succeeds, so the function
  of the notebook registered twice gives two units and no diagnostic.
\<close>

theorem same_function_registered_twice:
  "add_transformation engine0 (Col ''Amount'') transforms_above_threshold
      (Some threshold_500) (Name ''HighAmount'') ''series'' = Inr engine1
   \<and> add_transformation engine1 (Col ''Amount'') transforms_above_threshold
      (Some threshold_500) (Name ''HighAmount'') ''series''
     = Inr (engine1\<lparr>transformations := [unit_high, unit_high]\<rparr>)"
  by (simp add: add_transformation_def py_in_False example_defs)

text \<open>
  C9.  Whenever \<^verbatim>\<open>add_transformation\<close> appends a unit, the \<^verbatim>\<open>logger\<close> attribute of the
  function object passed by the caller has been set to the engine's logger; the
  attributes of other functions, the accumulated table and the engine's logger are as
  before.  The attribute is set before the unit is made: a callable that accepts no
  attribute makes the registration fail.
\<close>

theorem registration_sets_logger:
  "(add_transformation st on_cols f targs nm tt = Inr st' \<and> transformations st' \<noteq> transformations st \<longrightarrow>
      fn_logger st' = (fn_logger st)(fid f := Some (logger st))
      \<and> transformations st' = transformations st @
          [Transformation (case on_cols of Col c \<Rightarrow> Cols [c] | Cols cs \<Rightarrow> Cols cs) f nm targs tt]
      \<and> transformed_df st' = transformed_df st \<and> logger st' = logger st)
 \<and> (\<not> attrs_settable f \<longrightarrow> add_transformation st on_cols f targs nm tt = Inl (AttributeError ''logger''))"
  by (auto simp add: add_transformation_def py_in_False Let_def split: if_splits)

theorem registration_sets_logger_witness:
  "add_transformation engine_logging (Col ''Amount'') transforms_above_threshold
      (Some threshold_500) (Name ''HighAmount'') ''series''
     = Inr (engine_logging\<lparr>transformations := [unit_high], fn_logger := (\<lambda>f. None)(1 := Some (Some 7))\<rparr>)
   \<and> fn_logger engine_logging 1 = None
   \<and> add_transformation engine_logging (Col ''Amount'')
       (transforms_above_threshold\<lparr>attrs_settable := False\<rparr>) None NoName ''series''
     = Inl (AttributeError ''logger'')"
proof -
  have a: "add_transformation engine_logging (Col ''Amount'') transforms_above_threshold
      (Some threshold_500) (Name ''HighAmount'') ''series''
     = Inr (engine_logging\<lparr>transformations := [unit_high], fn_logger := (\<lambda>f. None)(1 := Some (Some 7))\<rparr>)"
    by (simp add: add_transformation_def py_in_False example_defs)
  have b: "transformations (engine_logging\<lparr>transformations := [unit_high],
      fn_logger := (\<lambda>f. None)(1 := Some (Some 7))\<rparr>) \<noteq> transformations engine_logging"
    by (simp add: example_defs)
  have c: "\<not> attrs_settable (transforms_above_threshold\<lparr>attrs_settable := False\<rparr>)"
    by simp
  show ?thesis
    using registration_sets_logger [of engine_logging "Col ''Amount''" transforms_above_threshold
        "Some threshold_500" "Name ''HighAmount''" "''series''"
        "engine_logging\<lparr>transformations := [unit_high], fn_logger := (\<lambda>f. None)(1 := Some (Some 7))\<rparr>"]
      registration_sets_logger [of engine_logging "Col ''Amount''"
        "transforms_above_threshold\<lparr>attrs_settable := False\<rparr>" None NoName "''series''"]
      a b c
    by (simp add: example_defs)
qed

section \<open>Properties of argument resolution\<close>

lemma has_column_iff: "has_column df c \<longleftrightarrow> column_of df c \<noteq> []"
  by (force simp add: has_column_def column_of_def filter_empty_conv)

lemma filter_label_single:
  assumes "map snd (filter (\<lambda>(l, vs). l = Str c) cs) = [vs]"
  shows "filter (\<lambda>(l, vs). l = Str c) cs = [(Str c, vs)]"
proof -
  from assms obtain p where p: "filter (\<lambda>(l, vs). l = Str c) cs = [p]" and "snd p = vs"
    by (cases "filter (\<lambda>(l, vs). l = Str c) cs") auto
  moreover have "p \<in> set (filter (\<lambda>(l, vs). l = Str c) cs)"
    using p by simp
  then have "fst p = Str c"
    by auto
  ultimately show ?thesis
    by (cases p) simp
qed

lemma frame_getitem_single:
  assumes "column_of df c = [vs]"
  shows "frame_getitem df c = Inr (Series \<lparr>sname = Str c, svalues = vs, sindex = index df\<rparr>)"
proof -
  have "filter (\<lambda>(l, vs). l = Str c) (columns df) = [(Str c, vs)]"
    using assms by (simp add: column_of_def filter_label_single)
  then show ?thesis by (simp add: frame_getitem_def)
qed

lemma frame_getitem_some:
  assumes "column_of df c \<noteq> []"
  shows "\<exists>x. frame_getitem df c = Inr x"
  using assms by (auto simp add: frame_getitem_def column_of_def split: list.splits)

lemma frame_getitem_none:
  assumes "column_of df c = []"
  shows "frame_getitem df c = Inl (KeyError c)"
  using assms by (simp add: frame_getitem_def column_of_def)

lemma collect_map_Inr:
  "collect (map g cs) = Inr xs \<longleftrightarrow> list_all2 (\<lambda>c x. g c = Inr x) cs xs"
proof (induction cs arbitrary: xs)
  case Nil
  then show ?case by auto
next
  case (Cons c cs)
  show ?case
  proof (cases "g c")
    case (Inl e)
    then show ?thesis by (auto simp add: list_all2_Cons1)
  next
    case (Inr x)
    then show ?thesis
      by (cases "collect (map g cs)") (auto simp add: list_all2_Cons1 Cons.IH [symmetric])
  qed
qed

lemma collect_map_first_error:
  assumes "\<forall>p \<in> set pre. \<exists>x. g p = Inr x" and "g c = Inl e"
  shows "collect (map g (pre @ c # post)) = Inl e"
  using assms
proof (induction pre)
  case Nil
  then show ?case by simp
next
  case (Cons p pre)
  then obtain x where "g p = Inr x" by auto
  with Cons show ?case by simp
qed

lemma get_args_resolve_error:
  "resolve (on_col_list t) df tdf = Inl e \<Longrightarrow> get_args t df tdf = Inl e"
  by (simp add: get_args_def)

lemma column_of_set_index [simp]: "column_of (f\<lparr>index := il\<rparr>) c = column_of f c"
  by (simp add: column_of_def)

lemma merge_first:
  "merge None (DataFrame f) il = Inr new \<Longrightarrow> new = DataFrame (f\<lparr>index := il\<rparr>)"
  by (auto simp add: merge_def set_index_def split: if_splits)

lemma merge_aligned:
  assumes "merge (Some (DataFrame acc)) (DataFrame f) il = Inr new" and "index acc = il"
  shows "new = DataFrame \<lparr>columns = columns acc @ columns f, index = il\<rparr>"
  using assms
  by (auto simp add: merge_def set_index_def pd_concat_def split: if_splits sum.splits)

text \<open>
  Resolution against tables.  A declared input name is looked up among the columns of
  the raw table first: a column found there is the argument, whatever the accumulated
  table holds.  A name absent from the raw table is looked up among the columns of the
  accumulated table.  A name that labels a column of either table resolves.  A name
  in neither raises the exception that names the column, also when there is no
  accumulated table yet, and \<^verbatim>\<open>get_args\<close> fails with the exception of the first such
  name.  The resolved columns are collected in the order of the names.  A column of a
  fragment table merged earlier in the same call (as the first fragment, or onto a
  table carrying the canonical row labels) is what a later name resolves to.
\<close>

theorem argument_resolution:
  "(column_of df c = [vs] \<longrightarrow>
      resolve_col df tdf c = Inr (Series \<lparr>sname = Str c, svalues = vs, sindex = index df\<rparr>))
 \<and> (column_of df c = [] \<and> column_of acc c = [vs] \<longrightarrow>
      resolve_col df (Some (DataFrame acc)) c =
        Inr (Series \<lparr>sname = Str c, svalues = vs, sindex = index acc\<rparr>))
 \<and> (column_of df c \<noteq> [] \<or> column_of acc c \<noteq> [] \<longrightarrow>
      (\<exists>x. resolve_col df (Some (DataFrame acc)) c = Inr x))
 \<and> (column_of df c = [] \<and> column_of acc c = [] \<longrightarrow>
      resolve_col df (Some (DataFrame acc)) c = Inl (not_found c)
      \<and> resolve_col df None c = Inl (not_found c))
 \<and> (on_col_list t = pre @ c # post \<and> (\<forall>p \<in> set pre. \<exists>x. resolve_col df tdf p = Inr x)
      \<and> resolve_col df tdf c = Inl e \<longrightarrow> get_args t df tdf = Inl e)
 \<and> (resolve (on_col_list t) df tdf = Inr xs \<longleftrightarrow>
      list_all2 (\<lambda>p x. resolve_col df tdf p = Inr x) (on_col_list t) xs)
 \<and> (column_of df c = [] \<and> column_of f c = [vs] \<and> merge prev (DataFrame f) index_list = Inr new
      \<and> (prev = None \<or> prev = Some (DataFrame acc) \<and> index acc = index_list \<and> column_of acc c = [])
      \<longrightarrow> resolve_col df (Some new) c =
            Inr (Series \<lparr>sname = Str c, svalues = vs, sindex = index_list\<rparr>))"
proof (intro conjI impI)
  assume "column_of df c = [vs]"
  then show "resolve_col df tdf c = Inr (Series \<lparr>sname = Str c, svalues = vs, sindex = index df\<rparr>)"
    by (simp add: resolve_col_def has_column_iff frame_getitem_single)
next
  assume "column_of df c = [] \<and> column_of acc c = [vs]"
  then show "resolve_col df (Some (DataFrame acc)) c =
        Inr (Series \<lparr>sname = Str c, svalues = vs, sindex = index acc\<rparr>)"
    by (simp add: resolve_col_def has_column_iff py_getitem_def frame_getitem_single)
next
  assume "column_of df c \<noteq> [] \<or> column_of acc c \<noteq> []"
  then show "\<exists>x. resolve_col df (Some (DataFrame acc)) c = Inr x"
    using frame_getitem_some [of df c] frame_getitem_some [of acc c]
    by (auto simp add: resolve_col_def has_column_iff py_getitem_def)
next
  assume a: "column_of df c = [] \<and> column_of acc c = []"
  then show "resolve_col df (Some (DataFrame acc)) c = Inl (not_found c)"
    by (simp add: resolve_col_def has_column_iff py_getitem_def frame_getitem_none)
  from a show "resolve_col df None c = Inl (not_found c)"
    by (simp add: resolve_col_def has_column_iff py_getitem_def)
next
  assume "on_col_list t = pre @ c # post \<and> (\<forall>p \<in> set pre. \<exists>x. resolve_col df tdf p = Inr x)
      \<and> resolve_col df tdf c = Inl e"
  then have "resolve (on_col_list t) df tdf = Inl e"
    using collect_map_first_error [of pre "resolve_col df tdf" c e post] by (simp add: resolve_def)
  then show "get_args t df tdf = Inl e"
    by (rule get_args_resolve_error)
next
  show "resolve (on_col_list t) df tdf = Inr xs \<longleftrightarrow>
      list_all2 (\<lambda>p x. resolve_col df tdf p = Inr x) (on_col_list t) xs"
    by (simp add: resolve_def collect_map_Inr)
next
  assume a: "column_of df c = [] \<and> column_of f c = [vs] \<and> merge prev (DataFrame f) index_list = Inr new
      \<and> (prev = None \<or> prev = Some (DataFrame acc) \<and> index acc = index_list \<and> column_of acc c = [])"
  then consider "prev = None" | "prev = Some (DataFrame acc)" "index acc = index_list" "column_of acc c = []"
    by auto
  then have "\<exists>m. new = DataFrame m \<and> column_of m c = [vs] \<and> index m = index_list"
  proof cases
    case 1
    with a have "new = DataFrame (f\<lparr>index := index_list\<rparr>)"
      using merge_first by blast
    with a show ?thesis by simp
  next
    case 2
    with a have "new = DataFrame \<lparr>columns = columns acc @ columns f, index = index_list\<rparr>"
      using merge_aligned by blast
    with a 2 show ?thesis by (simp add: column_of_def)
  qed
  with a show "resolve_col df (Some new) c =
            Inr (Series \<lparr>sname = Str c, svalues = vs, sindex = index_list\<rparr>)"
    by (auto simp add: resolve_col_def has_column_iff py_getitem_def frame_getitem_single)
qed

theorem argument_resolution_witness:
  "resolve_col work_table None ''Amount'' =
     Inr (Series \<lparr>sname = Str ''Amount'', svalues = [Num 100, Num 600], sindex = [Str ''a'', Str ''b'']\<rparr>)
   \<and> resolve_col work_table (Some (DataFrame high_table)) ''HighAmount'' =
     Inr (Series \<lparr>sname = Str ''HighAmount'', svalues = [Num 0, Num 1], sindex = [Str ''a'', Str ''b'']\<rparr>)
   \<and> resolve_col work_table (Some (DataFrame high_table)) ''Missing'' =
     Inl (Exception ''Column Missing not found in input dataframes'')
   \<and> get_args (unit_threshold ''Missing'' NoName) work_table None =
     Inl (Exception ''Column Missing not found in input dataframes'')
   \<and> merge None (DataFrame \<lparr>columns = [(Str ''HighAmount'', [Num 0, Num 1])], index = [Num 0, Num 1]\<rparr>)
       [Str ''a'', Str ''b''] = Inr (DataFrame high_table)"
proof -
  have a: "column_of work_table ''Amount'' = [[Num 100, Num 600]]"
    "column_of work_table ''HighAmount'' = []" "column_of work_table ''Missing'' = []"
    "column_of high_table ''HighAmount'' = [[Num 0, Num 1]]" "column_of high_table ''Missing'' = []"
    by (simp_all add: column_of_def work_table_def high_table_def)
  have b: "merge None (DataFrame \<lparr>columns = [(Str ''HighAmount'', [Num 0, Num 1])], index = [Num 0, Num 1]\<rparr>)
       [Str ''a'', Str ''b''] = Inr (DataFrame high_table)"
    by (simp add: merge_def set_index_def high_table_def)
  have c: "column_of \<lparr>columns = [(Str ''HighAmount'', [Num 0, Num 1])], index = [Num 0, Num 1]\<rparr> ''HighAmount''
      = [[Num 0, Num 1]]"
    by (simp add: column_of_def)
  have d: "on_col_list (unit_threshold ''Missing'' NoName) = [] @ ''Missing'' # []"
    by (simp add: on_col_list_def unit_threshold_def Transformation_def)
  have e: "resolve_col work_table None ''Missing'' = Inl (not_found ''Missing'')"
    using argument_resolution [where df = work_table and c = "''Missing''" and acc = high_table] a
    by simp
  show ?thesis
    using argument_resolution [where df = work_table and c = "''Amount''" and vs = "[Num 100, Num 600]"
        and tdf = None]
      argument_resolution [where df = work_table and c = "''HighAmount''" and vs = "[Num 0, Num 1]"
        and acc = high_table and prev = None and index_list = "[Str ''a'', Str ''b'']"
        and f = "\<lparr>columns = [(Str ''HighAmount'', [Num 0, Num 1])], index = [Num 0, Num 1]\<rparr>"
        and new = "DataFrame high_table"]
      argument_resolution [where df = work_table and c = "''Missing''" and acc = high_table
        and t = "unit_threshold ''Missing'' NoName" and pre = "[]" and post = "[]" and tdf = None
        and e = "not_found ''Missing''"]
      a b c d e
    by (simp add: not_found_def work_table_def high_table_def)
qed

section \<open>Properties of the row identity\<close>

lemma upt_0_Suc: "[0..<Suc n] = 0 # map Suc [0..<n]"
  by (simp add: upt_conv_Cons map_Suc_upt del: upt_Suc)

lemma select_not_Cons [simp]:
  "select_not (d # ds) (x # xs) = (if d then select_not ds xs else x # select_not ds xs)"
  by (simp add: select_not_def)

lemma select_not_Nil [simp]: "select_not [] xs = []" "select_not ds [] = []"
  by (simp_all add: select_not_def)

lemma select_not_first_from:
  "length xs = length ks \<Longrightarrow>
   select_not (duplicated_from seen ks) xs =
     map ((!) xs) (filter (\<lambda>i. ks ! i \<notin> set seen \<union> set (take i ks)) [0..<length ks])"
proof (induction ks arbitrary: seen xs)
  case Nil
  then show ?case by simp
next
  case (Cons k ks)
  then obtain x xs' where xs: "xs = x # xs'" and len: "length xs' = length ks"
    by (cases xs) auto
  have ih: "select_not (duplicated_from (k # seen) ks) xs' =
     map ((!) xs') (filter (\<lambda>i. ks ! i \<notin> set (k # seen) \<union> set (take i ks)) [0..<length ks])"
    using Cons.IH [OF len] .
  show ?case
    unfolding xs
    by (simp add: upt_0_Suc filter_map o_def ih conj_ac del: upt_Suc)
qed

lemma select_not_first:
  "length xs = length ks \<Longrightarrow> select_not (duplicated ks) xs = map ((!) xs) (first_occurrences ks)"
  using select_not_first_from [of xs ks "[]"] by (simp add: duplicated_def first_occurrences_def)

lemma select_not_distinct_from:
  "distinct (select_not (duplicated_from seen ks) ks)
   \<and> set (select_not (duplicated_from seen ks) ks) = set ks - set seen"
  by (induction ks arbitrary: seen) auto

lemma select_not_distinct: "distinct (select_not (duplicated ks) ks)"
  using select_not_distinct_from [of "[]" ks] by (simp add: duplicated_def)

lemma set_select_not: "set (select_not ds xs) \<subseteq> set xs"
  by (auto simp add: select_not_def dest: set_zip_rightD)

lemma map_of_dedup_from:
  "map_of (select_not (duplicated_from seen (map fst xs)) xs) k =
     (if k \<in> set seen then None else map_of xs k)"
proof (induction xs arbitrary: seen k)
  case Nil
  then show ?case by simp
next
  case (Cons x xs)
  show ?case
    by (cases x) (simp add: Cons.IH)
qed

lemma map_of_dedup_columns: "map_of (columns (dedup_columns df)) k = map_of (columns df) k"
  using map_of_dedup_from [of "[]" "columns df" k] by (simp add: dedup_columns_def duplicated_def)

lemma wf_dedup_columns: "wf_frame df \<Longrightarrow> wf_frame (dedup_columns df)"
  using set_select_not [of "duplicated (map fst (columns df))" "columns df"]
  by (auto simp add: wf_frame_def dedup_columns_def list_all_iff)

lemma index_dedup_columns [simp]: "index (dedup_columns df) = index df"
  by (simp add: dedup_columns_def)

lemma str_join_strings:
  "list_all is_Str vs \<Longrightarrow> str_join vs = Inr (concat (map py_str vs))"
proof (induction vs)
  case Nil
  then show ?case by simp
next
  case (Cons v vs)
  then show ?case by (cases v) simp_all
qed


lemma filter_set_column:
  "filter (\<lambda>(l, ws). l \<noteq> Str c) (columns (set_column df c vs)) =
   filter (\<lambda>(l, ws). l \<noteq> Str c) (columns df)"
proof -
  have "filter (\<lambda>(l, ws). l \<noteq> Str c) (map (\<lambda>(l, ws). if l = Str c then (l, vs) else (l, ws)) cs) =
        filter (\<lambda>(l, ws). l \<noteq> Str c) cs" for cs
    by (induction cs) auto
  then show ?thesis
    by (simp add: set_column_def)
qed

lemma identity_frame:
  "del_column ((drop_rows ds (set_column df c vs))\<lparr>index := il\<rparr>) c =
     \<lparr>columns = map (\<lambda>(l, ws). (l, select_not ds ws)) (filter (\<lambda>(l, ws). l \<noteq> Str c) (columns df)),
      index = il\<rparr>"
proof -
  have swap: "filter (\<lambda>(l, ws). l \<noteq> Str c) (map (\<lambda>(l, ws). (l, select_not ds ws)) cs) =
        map (\<lambda>(l, ws). (l, select_not ds ws)) (filter (\<lambda>(l, ws). l \<noteq> Str c) cs)" for cs
    by (induction cs) auto
  show ?thesis
    by (simp add: del_column_def drop_rows_def swap filter_set_column)
qed

lemma select_columns_present:
  assumes "\<forall>c \<in> set ic. \<exists>vs. map_of (columns df) (Str c) = Some vs"
  shows "select_columns df ic = Inr (map (\<lambda>c. the (map_of (columns df) (Str c))) ic)"
  using assms by (auto simp add: select_columns_def collect_map_Inr list_all2_map2 list_all2_same)


lemma row_keys_strings:
  assumes wf: "wf_frame df" and ic: "distinct ic" and rows: "index df \<noteq> []"
    and sv: "string_valued df ic"
  shows "row_keys (dedup_columns df) ic = Inr (spec_row_keys df ic)"
proof -
  have present: "\<forall>c \<in> set ic. \<exists>vs. map_of (columns df) (Str c) = Some vs \<and> list_all is_Str vs"
    using sv by (auto simp add: string_valued_def list_all_iff split: option.splits)
  then have sel: "select_columns (dedup_columns df) ic =
      Inr (map (\<lambda>c. the (map_of (columns df) (Str c))) ic)"
    using select_columns_present [of ic "dedup_columns df"] by (auto simp add: map_of_dedup_columns)
  have key: "str_join (map (\<lambda>vs. vs ! i) (map (\<lambda>c. the (map_of (columns df) (Str c))) ic)) =
      Inr (spec_row_key df ic i)" if i: "i < length (index df)" for i
  proof -
    have cells: "the (map_of (columns df) (Str c)) ! i = cell df c i \<and> is_Str (cell df c i)"
      if c: "c \<in> set ic" for c
    proof -
      from present c obtain vs where vs: "map_of (columns df) (Str c) = Some vs" "list_all is_Str vs"
        by blast
      then have "(Str c, vs) \<in> set (columns df)"
        by (simp add: map_of_SomeD)
      with wf have "length vs = length (index df)"
        by (auto simp add: wf_frame_def list_all_iff)
      with vs i show ?thesis
        by (simp add: cell_def list_all_length)
    qed
    then have "list_all is_Str (map (\<lambda>vs. vs ! i) (map (\<lambda>c. the (map_of (columns df) (Str c))) ic))"
      by (simp add: list_all_iff)
    then have "str_join (map (\<lambda>vs. vs ! i) (map (\<lambda>c. the (map_of (columns df) (Str c))) ic)) =
      Inr (concat (map py_str (map (\<lambda>vs. vs ! i) (map (\<lambda>c. the (map_of (columns df) (Str c))) ic))))"
      by (rule str_join_strings)
    also have "map py_str (map (\<lambda>vs. vs ! i) (map (\<lambda>c. the (map_of (columns df) (Str c))) ic)) =
      map (\<lambda>c. py_str (cell df c i)) ic"
      using cells by simp
    finally show ?thesis
      by (simp add: spec_row_key_def)
  qed
  have "collect (map (\<lambda>i. str_join (map (\<lambda>vs. vs ! i) (map (\<lambda>c. the (map_of (columns df) (Str c))) ic)))
          [0..<length (index df)]) = Inr (spec_row_keys df ic)"
    unfolding collect_map_Inr spec_row_keys_def
    by (simp add: list_all2_map2 list_all2_same key del: map_map)
  with sel ic rows show ?thesis
    by (simp add: row_keys_def)
qed

lemma length_spec_row_keys [simp]: "length (spec_row_keys df ic) = length (index df)"
  by (simp add: spec_row_keys_def)

lemma row_identity_strings:
  assumes "wf_frame df" and "ic \<noteq> []" and "distinct ic" and "index df \<noteq> []"
    and "string_valued df ic"
  shows "row_identity df (Some ic) =
           Inr ((take_rows (first_occurrences (spec_row_keys df ic))
                   (del_column (dedup_columns df) ''INDEX''))
                  \<lparr>index := map (\<lambda>i. Str (spec_row_keys df ic ! i))
                              (first_occurrences (spec_row_keys df ic))\<rparr>,
                map (\<lambda>i. Str (spec_row_keys df ic ! i)) (first_occurrences (spec_row_keys df ic)))
       \<and> distinct (map (\<lambda>i. Str (spec_row_keys df ic ! i)) (first_occurrences (spec_row_keys df ic)))"
proof -
  let ?keys = "spec_row_keys df ic"
  let ?kept = "first_occurrences ?keys"
  have keys: "row_keys (dedup_columns df) ic = Inr ?keys"
    using assms by (simp add: row_keys_strings)
  have il: "map Str (select_not (duplicated ?keys) ?keys) = map (\<lambda>i. Str (?keys ! i)) ?kept"
    by (simp add: select_not_first)
  have cols: "map (\<lambda>(l, ws). (l, select_not (duplicated ?keys) ws))
                (filter (\<lambda>(l, ws). l \<noteq> Str ''INDEX'') (columns (dedup_columns df))) =
              map (\<lambda>(l, ws). (l, map ((!) ws) ?kept))
                (filter (\<lambda>(l, ws). l \<noteq> Str ''INDEX'') (columns (dedup_columns df)))"
  proof (rule map_cong [OF refl])
    fix x assume "x \<in> set (filter (\<lambda>(l, ws). l \<noteq> Str ''INDEX'') (columns (dedup_columns df)))"
    then have "x \<in> set (columns (dedup_columns df))" by simp
    with wf_dedup_columns [OF assms(1)] have "length (snd x) = length ?keys"
      by (auto simp add: wf_frame_def list_all_iff)
    then show "(case x of (l, ws) \<Rightarrow> (l, select_not (duplicated ?keys) ws)) =
               (case x of (l, ws) \<Rightarrow> (l, map ((!) ws) ?kept))"
      by (cases x) (simp add: select_not_first)
  qed
  have "distinct (select_not (duplicated ?keys) ?keys)"
    by (rule select_not_distinct)
  then have d: "distinct (map (\<lambda>i. Str (?keys ! i)) ?kept)"
    using il by (metis distinct_map inj_on_def val.inject(1) subset_UNIV inj_on_subset)
  have "row_identity df (Some ic) =
          Inr (\<lparr>columns = map (\<lambda>(l, ws). (l, map ((!) ws) ?kept))
                  (filter (\<lambda>(l, ws). l \<noteq> Str ''INDEX'') (columns (dedup_columns df))),
                index = map (\<lambda>i. Str (?keys ! i)) ?kept\<rparr>,
               map (\<lambda>i. Str (?keys ! i)) ?kept)"
    using assms(2) by (simp add: row_identity_def keys Let_def identity_frame il cols)
  then show ?thesis
    using d by (simp add: take_rows_def del_column_def)
qed

lemma keys_raw_str_id: "spec_row_keys raw_str_id [''ID''] = [''a'', ''b'', ''b'']"
  by (simp add: spec_row_keys_def spec_row_key_def cell_def raw_str_id_def upt_conv_Cons)

lemma first_occurrences_abb: "first_occurrences [''a'', ''b'', ''b''] = [0, 1]"
  by (simp add: first_occurrences_def upt_conv_Cons take_Suc_conv_app_nth)

text \<open>
  C3, the claim as stated, fails on identity columns that do not hold strings: on the
  example of the specification (\<^verbatim>\<open>ID=[1,2,2]\<close>) the string representations would give
  the keys 1, 2, 2, but \<^verbatim>\<open>"".join\<close> raises a \<^verbatim>\<open>TypeError\<close> on the first number and the
  call ends there.
\<close>

theorem numeric_identity_column_raises:
  "spec_row_keys raw_num_id [''ID''] = [''1'', ''2'', ''2'']
   \<and> apply_transformations engine1 raw_num_id (Some [''ID'']) False =
       (engine1, Inl (TypeError ''sequence item: expected str instance''))"
  by (simp add: apply_transformations_def row_identity_def row_keys_def select_columns_def
      dedup_columns_def duplicated_def spec_row_keys_def spec_row_key_def cell_def raw_num_id_def
      upt_conv_Cons decimal_defs)

section \<open>Properties of the loop\<close>

lemma call_transformation_f_state:
  assumes "call_transformation_f f args st = (st', r)"
  shows "\<exists>cs. st' = st\<lparr>called := called st @ cs\<rparr> \<and> cs \<noteq> []
           \<and> (\<forall>c \<in> set cs. fst c = fid f
                 \<and> (snd c = Named args \<or> snd c = Positional (map snd args)))"
  using assms
  by (auto simp add: call_transformation_f_def call_positional_def call_f_def
      split: outcome.splits if_splits)

lemma Transformation_apply_state:
  assumes "Transformation_apply t args st = (st', r)"
  shows "\<exists>cs. st' = st\<lparr>called := called st @ cs\<rparr> \<and> cs \<noteq> []
           \<and> (\<forall>c \<in> set cs. fst c = fid (transformation_f t)
                 \<and> (snd c = Named args \<or> snd c = Positional (map snd args)))"
proof -
  obtain st1 r1 where c: "call_transformation_f (transformation_f t) args st = (st1, r1)"
    by (cases "call_transformation_f (transformation_f t) args st")
  with assms have "st' = st1"
    by (auto simp add: Transformation_apply_def split: sum.splits)
  with call_transformation_f_state [OF c] show ?thesis
    by simp
qed

lemma call_transformation_f_log:
  assumes "call_transformation_f f args st = (st', res)"
  shows "st' = st\<lparr>called := called st @ calls_of f args\<rparr>"
  using assms
  by (auto simp add: call_transformation_f_def call_positional_def call_f_def calls_of_def
      retried_def split: outcome.splits if_splits)

lemma Transformation_apply_log:
  assumes "Transformation_apply t args st = (st', res)"
  shows "st' = st\<lparr>called := called st @ calls_of (transformation_f t) args\<rparr>"
proof -
  obtain st1 r1 where c: "call_transformation_f (transformation_f t) args st = (st1, r1)"
    by (cases "call_transformation_f (transformation_f t) args st")
  with assms have "st' = st1"
    by (auto simp add: Transformation_apply_def split: sum.splits)
  with call_transformation_f_log [OF c] show ?thesis
    by simp
qed

lemma Transformation_apply_pandas:
  assumes "Transformation_apply t args st = (st', Inr (frag, t'))"
  shows "\<not> is_Scalar frag"
proof -
  from assms obtain x where "reset_index x = Inr frag"
    by (auto simp add: Transformation_apply_def split: sum.splits prod.splits)
  then show ?thesis
    by (auto simp add: reset_index_def split: pyobj.splits)
qed

lemma reset_index_result:
  "reset_index x = Inr y \<Longrightarrow> obj_index y = positional_index (length (obj_index y))"
  by (auto simp add: reset_index_def positional_index_def split: pyobj.splits)

lemma Transformation_apply_result:
  assumes "Transformation_apply t args st = (st', Inr (frag, t'))"
  shows "t' = t\<lparr>transformation_applied := True\<rparr>
         \<and> obj_index frag = positional_index (length (obj_index frag))"
proof -
  from assms obtain x where "reset_index x = Inr frag" and "t' = t\<lparr>transformation_applied := True\<rparr>"
    by (auto simp add: Transformation_apply_def split: sum.splits prod.splits)
  with reset_index_result [of x frag] show ?thesis
    by simp
qed

lemma merge_labelled:
  assumes "merge tdf frag il = Inr new" and "labelled il tdf"
  shows "obj_index new = il"
proof -
  from assms(1) obtain frag' where f: "set_index frag il = Inr frag'"
    by (auto simp add: merge_def split: sum.splits)
  then have i: "obj_index frag' = il"
    by (auto simp add: set_index_def split: pyobj.splits if_splits)
  show ?thesis
  proof (cases tdf)
    case None
    with assms f i show ?thesis by (simp add: merge_def)
  next
    case (Some acc)
    with assms f obtain m where m: "pd_concat [acc, frag'] = Inr m" "new = DataFrame m"
      by (auto simp add: merge_def split: sum.splits)
    from Some assms(2) have "obj_index acc = il"
      by (simp add: labelled_def)
    with i m show ?thesis
      by (auto simp add: pd_concat_def split: if_splits)
  qed
qed

text \<open>The three ways through the loop body.\<close>

lemma loop_body_cases:
  assumes "loop_body df il r i t tdf st = (st', res)"
  obtains
    (skipped) "transformation_applied t" "\<not> r"
      "st' = st\<lparr>printed := printed st @ [AppliedSkipping i]\<rparr>" "res = Inr tdf"
  | (unresolved) e where "\<not> (transformation_applied t \<and> \<not> r)"
      "get_args t df tdf = Inl e" "st' = st" "res = Inl e"
  | (raised) args e where "\<not> (transformation_applied t \<and> \<not> r)"
      "get_args t df tdf = Inr args" "Transformation_apply t args st = (st', Inl e)" "res = Inl e"
  | (unmerged) args st1 frag e where "\<not> (transformation_applied t \<and> \<not> r)"
      "get_args t df tdf = Inr args"
      "Transformation_apply t args st = (st1, Inr (frag, t\<lparr>transformation_applied := True\<rparr>))"
      "merge tdf frag il = Inl e"
      "st' = st1\<lparr>transformations := (transformations st1)[i := t\<lparr>transformation_applied := True\<rparr>]\<rparr>"
      "res = Inl e"
  | (merged) args st1 frag new where "\<not> (transformation_applied t \<and> \<not> r)"
      "get_args t df tdf = Inr args"
      "Transformation_apply t args st = (st1, Inr (frag, t\<lparr>transformation_applied := True\<rparr>))"
      "merge tdf frag il = Inr new"
      "st' = st1\<lparr>transformations := (transformations st1)[i := t\<lparr>transformation_applied := True\<rparr>],
                 transformed_df := Some new\<rparr>"
      "res = Inr (Some new)"
proof (cases "transformation_applied t \<and> \<not> r")
  case True
  with assms skipped show ?thesis
    by (auto simp add: loop_body_def)
next
  case False
  show ?thesis
  proof (cases "get_args t df tdf")
    case (Inl e)
    with False assms unresolved show ?thesis
      by (auto simp add: loop_body_def)
  next
    case (Inr args)
    obtain st1 r1 where a: "Transformation_apply t args st = (st1, r1)"
      by (cases "Transformation_apply t args st")
    show ?thesis
    proof (cases r1)
      case (Inl e)
      with False Inr a assms raised show ?thesis
        by (auto simp add: loop_body_def)
    next
      case r1: (Inr p)
      obtain frag t' where p: "p = (frag, t')" by (cases p)
      with a r1 Transformation_apply_result have t': "t' = t\<lparr>transformation_applied := True\<rparr>"
        by blast
      show ?thesis
      proof (cases "merge tdf frag il")
        case (Inl e)
        with False Inr a r1 p t' assms unmerged show ?thesis
          by (auto simp add: loop_body_def Let_def)
      next
        case new: (Inr new)
        with False Inr a r1 p t' assms merged show ?thesis
          by (auto simp add: loop_body_def Let_def)
      qed
    qed
  qed
qed

lemma loop_body_skip:
  "transformation_applied t \<Longrightarrow>
   loop_body df il False i t tdf st = (st\<lparr>printed := printed st @ [AppliedSkipping i]\<rparr>, Inr tdf)"
  by (simp add: loop_body_def)

lemma run_skip_all:
  "list_all transformation_applied ts \<Longrightarrow>
   run_transformations df il False i ts tdf st =
     (st\<lparr>printed := printed st @ map AppliedSkipping [i..<i + length ts]\<rparr>, Inr tdf)"
proof (induction ts arbitrary: i st)
  case Nil
  then show ?case by simp
next
  case (Cons t ts)
  then show ?case
    by (simp add: loop_body_skip upt_conv_Cons del: upt_Suc)
qed

lemma run_append:
  "run_transformations df il r i (pre @ rest) tdf st =
     (case run_transformations df il r i pre tdf st of
        (st1, Inl e) \<Rightarrow> (st1, Inl e)
      | (st1, Inr tdf1) \<Rightarrow> run_transformations df il r (i + length pre) rest tdf1 st1)"
proof (induction pre arbitrary: i tdf st)
  case Nil
  then show ?case by simp
next
  case (Cons t pre)
  show ?case
    by (simp add: Cons.IH split: sum.splits prod.splits)
qed

text \<open>What the loop body keeps and establishes.\<close>

lemma loop_body_frame:
  assumes "loop_body df il r i t tdf st = (st', res)"
  shows "logger st' = logger st \<and> fn_logger st' = fn_logger st
       \<and> (transformations st' = transformations st
            \<or> transformations st' = (transformations st)[i := t\<lparr>transformation_applied := True\<rparr>])
       \<and> (\<exists>cs. called st' = called st @ cs \<and> (\<forall>c \<in> set cs. fst c = fid (transformation_f t)))"
  using assms
proof (cases rule: loop_body_cases)
  case skipped
  then show ?thesis by simp
next
  case (unresolved e)
  then show ?thesis by simp
next
  case (raised args e)
  with Transformation_apply_state [OF raised(3)] show ?thesis by auto
next
  case (unmerged args st1 frag e)
  with Transformation_apply_state [OF unmerged(3)] show ?thesis by auto
next
  case (merged args st1 frag new)
  with Transformation_apply_state [OF merged(3)] show ?thesis by auto
qed

lemma loop_body_running:
  assumes "loop_body df il r i t tdf st = (st', res)" and "transformed_df st = tdf"
  shows "case res of Inr x \<Rightarrow> transformed_df st' = x | Inl e \<Rightarrow> transformed_df st' = tdf"
  using assms
proof (cases rule: loop_body_cases)
  case skipped
  with assms(2) show ?thesis by simp
next
  case (unresolved e)
  with assms(2) show ?thesis by simp
next
  case (raised args e)
  with Transformation_apply_state [OF raised(3)] assms(2) show ?thesis by auto
next
  case (unmerged args st1 frag e)
  with Transformation_apply_state [OF unmerged(3)] assms(2) show ?thesis by auto
next
  case (merged args st1 frag new)
  then show ?thesis by simp
qed

lemma loop_body_labelled:
  assumes "loop_body df il r i t tdf st = (st', Inr tdf')" and "labelled il tdf"
  shows "labelled il tdf'"
  using assms
proof (cases rule: loop_body_cases)
  case (merged args st1 frag new)
  with merge_labelled [OF merged(4) assms(2)] show ?thesis
    by (simp add: labelled_def)
qed simp_all

lemma loop_body_flag:
  assumes "loop_body df il r i t tdf st = (st', Inr tdf')"
    and "transformations st = A @ t # B" and "length A = i"
  shows "\<exists>t'. transformations st' = A @ t' # B \<and> transformation_applied t'"
  using assms
proof (cases rule: loop_body_cases)
  case skipped
  with assms show ?thesis by simp
next
  case (merged args st1 frag new)
  with Transformation_apply_state [OF merged(3)] assms(2,3) show ?thesis
    by auto
qed simp_all

lemma loop_body_units:
  assumes "loop_body df il r i t tdf st = (st', res)"
    and "transformations st = A @ t # B" and "length A = i"
  shows "\<exists>t'. transformations st' = A @ t' # B \<and> (t' = t \<or> t' = t\<lparr>transformation_applied := True\<rparr>)"
  using loop_body_frame [OF assms(1)] assms(2,3) by auto

lemma run_units:
  assumes "run_transformations df il r i ts tdf st = (st', res)"
    and "transformations st = A @ ts @ B" and "length A = i"
  shows "\<exists>ts'. transformations st' = A @ ts' @ B \<and> length ts' = length ts
           \<and> (\<forall>x. res = Inr x \<longrightarrow> list_all transformation_applied ts')"
  using assms
proof (induction ts arbitrary: i A tdf st)
  case Nil
  then show ?case by auto
next
  case (Cons t ts)
  obtain s1 r1 where b: "loop_body df il r i t tdf st = (s1, r1)"
    by (cases "loop_body df il r i t tdf st")
  from Cons.prems(2) have u: "transformations st = A @ t # (ts @ B)"
    by simp
  show ?case
  proof (cases r1)
    case (Inl e)
    with b Cons.prems(1) have "st' = s1" "res = Inl e"
      by auto
    with loop_body_units [OF b u Cons.prems(3)] obtain t' where
      "transformations st' = A @ t' # (ts @ B)"
      by auto
    then have "transformations st' = A @ (t' # ts) @ B \<and> length (t' # ts) = length (t # ts)"
      by simp
    with \<open>res = Inl e\<close> show ?thesis
      by blast
  next
    case (Inr x)
    with b Cons.prems(1) have run: "run_transformations df il r (Suc i) ts x s1 = (st', res)"
      by simp
    from loop_body_flag [OF b [unfolded Inr] u Cons.prems(3)] obtain t' where
      t': "transformations s1 = A @ t' # (ts @ B)" "transformation_applied t'"
      by auto
    then have "transformations s1 = (A @ [t']) @ ts @ B" "length (A @ [t']) = Suc i"
      using Cons.prems(3) by simp_all
    from Cons.IH [OF run this] obtain ts' where
      "transformations st' = (A @ [t']) @ ts' @ B" "length ts' = length ts"
      "\<forall>x. res = Inr x \<longrightarrow> list_all transformation_applied ts'"
      by auto
    with t'(2) have "transformations st' = A @ (t' # ts') @ B \<and> length (t' # ts') = length (t # ts)
      \<and> (\<forall>x. res = Inr x \<longrightarrow> list_all transformation_applied (t' # ts'))"
      by simp
    then show ?thesis
      by blast
  qed
qed

lemma run_running:
  assumes "run_transformations df il r i ts tdf st = (st', res)" and "transformed_df st = tdf"
  shows "(\<forall>x. res = Inr x \<longrightarrow> transformed_df st' = x)
       \<and> (labelled il tdf \<longrightarrow> labelled il (transformed_df st'))"
  using assms
proof (induction ts arbitrary: i tdf st)
  case Nil
  then show ?case by auto
next
  case (Cons t ts)
  obtain s1 r1 where b: "loop_body df il r i t tdf st = (s1, r1)"
    by (cases "loop_body df il r i t tdf st")
  show ?case
  proof (cases r1)
    case (Inl e)
    with b Cons.prems(1) have "st' = s1" "res = Inl e"
      by auto
    with loop_body_running [OF b Cons.prems(2)] Inl show ?thesis
      by simp
  next
    case (Inr x)
    with b Cons.prems(1) have run: "run_transformations df il r (Suc i) ts x s1 = (st', res)"
      by simp
    from loop_body_running [OF b Cons.prems(2)] Inr have x: "transformed_df s1 = x"
      by simp
    from Cons.IH [OF run x] loop_body_labelled [OF b [unfolded Inr]] show ?thesis
      by blast
  qed
qed

lemma run_frame:
  assumes "run_transformations df il r i ts tdf st = (st', res)"
  shows "logger st' = logger st \<and> fn_logger st' = fn_logger st"
  using assms
proof (induction ts arbitrary: i tdf st)
  case Nil
  then show ?case by auto
next
  case (Cons t ts)
  obtain s1 r1 where b: "loop_body df il r i t tdf st = (s1, r1)"
    by (cases "loop_body df il r i t tdf st")
  with Cons.prems Cons.IH loop_body_frame [OF b] show ?case
    by (cases r1) auto
qed

lemma apply_unfold:
  "row_identity df ic = Inr (df', il) \<Longrightarrow>
   apply_transformations st df ic r =
     run_transformations df' il r 0 (transformations st) (transformed_df st) st"
  by (simp add: apply_transformations_def)

text \<open>
  C4 (as amended).  When every registered unit is marked applied, \<^verbatim>\<open>apply\<close> without
  forced reapplication calls no transform function and changes nothing of the engine:
  if the row identity step raises, its exception propagates; otherwise every unit is
  skipped with its diagnostic and the accumulated table is returned as it is.  After
  a successful \<^verbatim>\<open>apply\<close> without forced reapplication, the returned table is the
  accumulated one and a second such call on the same arguments skips every unit and
  returns the same table.
\<close>

theorem applied_units_are_skipped:
  "(list_all transformation_applied (transformations st) \<longrightarrow>
      apply_transformations st df ic False =
        (case row_identity df ic of
           Inl e \<Rightarrow> (st, Inl e)
         | Inr p \<Rightarrow>
             (st\<lparr>printed := printed st @ map AppliedSkipping [0..<length (transformations st)]\<rparr>,
              Inr (transformed_df st))))
 \<and> (apply_transformations st df ic False = (st1, Inr res) \<longrightarrow>
      transformed_df st1 = res
      \<and> apply_transformations st1 df ic False =
          (st1\<lparr>printed := printed st1 @ map AppliedSkipping [0..<length (transformations st1)]\<rparr>,
           Inr res))"
proof (intro conjI impI)
  assume "list_all transformation_applied (transformations st)"
  then show "apply_transformations st df ic False =
        (case row_identity df ic of
           Inl e \<Rightarrow> (st, Inl e)
         | Inr p \<Rightarrow>
             (st\<lparr>printed := printed st @ map AppliedSkipping [0..<length (transformations st)]\<rparr>,
              Inr (transformed_df st)))"
    by (auto simp add: apply_transformations_def run_skip_all split: sum.splits)
next
  assume a: "apply_transformations st df ic False = (st1, Inr res)"
  then obtain df' il where ri: "row_identity df ic = Inr (df', il)"
    by (auto simp add: apply_transformations_def split: sum.splits)
  with a have run: "run_transformations df' il False 0 (transformations st) (transformed_df st) st
      = (st1, Inr res)"
    by (simp add: apply_unfold)
  from run_running [OF run] show t: "transformed_df st1 = res"
    by simp
  from run_units [OF run, of "[]" "[]"] have "list_all transformation_applied (transformations st1)"
    by auto
  with ri t show "apply_transformations st1 df ic False =
          (st1\<lparr>printed := printed st1 @ map AppliedSkipping [0..<length (transformations st1)]\<rparr>,
           Inr res)"
    by (simp add: apply_unfold run_skip_all)
qed

text \<open>What a merge and a run of the loop put into the running result.\<close>

lemma set_index_relabel:
  "set_index frag il =
     (if is_Scalar frag then Inl (AttributeError ''index'')
      else if length il = length (obj_index frag) then Inr (relabel il frag)
      else Inl (ValueError ''Length mismatch''))"
  by (cases frag) (simp_all add: set_index_def relabel_def)

lemma relabel_index:
  "\<not> is_Scalar frag \<Longrightarrow> length il = length (obj_index frag) \<Longrightarrow> obj_index (relabel il frag) = il"
  by (cases frag) (simp_all add: relabel_def)

lemma relabel_columns [simp]: "obj_columns (relabel il frag) = obj_columns frag"
  by (cases frag) (simp_all add: relabel_def)

lemma relabel_named [simp]: "named (relabel il frag) = named frag"
  by (cases frag) (simp_all add: relabel_def)

lemma concat_columns_pair_values:
  "map snd (concat (concat_columns k [a, b])) = map snd (obj_columns a) @ map snd (obj_columns b)"
  by (cases a; cases b) simp_all

lemma pd_concat_labels:
  assumes "pd_concat [a, b] = Inr m" "named a" "named b"
  shows "map fst (columns m) = map fst (obj_columns a) @ map fst (obj_columns b)"
  using assms
  by (cases a; cases b)
    (auto simp add: pd_concat_def Let_def comp_def case_prod_beta split: if_splits)

lemma merge_values:
  assumes "merge tdf frag il = Inr new" and "labelled il tdf"
  shows "map snd (obj_columns new) = map snd (held_columns tdf) @ map snd (obj_columns frag)"
proof -
  from assms(1) have f: "set_index frag il = Inr (relabel il frag)" "\<not> is_Scalar frag"
      "length il = length (obj_index frag)"
    by (auto simp add: merge_def set_index_relabel split: sum.splits if_splits)
  show ?thesis
  proof (cases tdf)
    case None
    with assms f have "new = relabel il frag" by (simp add: merge_def)
    with None show ?thesis by (simp add: held_columns_def)
  next
    case (Some acc)
    with assms f obtain m where m: "pd_concat [acc, relabel il frag] = Inr m" "new = DataFrame m"
      by (auto simp add: merge_def split: sum.splits)
    from Some assms(2) have "obj_index acc = il"
      by (simp add: labelled_def)
    with m f Some show ?thesis
      by (auto simp add: pd_concat_def relabel_index concat_columns_pair_values held_columns_def
          simp del: concat_columns.simps split: if_splits)
  qed
qed

lemma merge_labels:
  assumes "merge tdf frag il = Inr new" and "held_named tdf" and "named frag"
  shows "map fst (obj_columns new) = map fst (held_columns tdf) @ map fst (obj_columns frag)
         \<and> named new"
proof -
  from assms(1) have f: "set_index frag il = Inr (relabel il frag)" "\<not> is_Scalar frag"
      "length il = length (obj_index frag)"
    by (auto simp add: merge_def set_index_relabel split: sum.splits if_splits)
  show ?thesis
  proof (cases tdf)
    case None
    with assms f have "new = relabel il frag" by (simp add: merge_def)
    with None assms(3) show ?thesis by (simp add: held_columns_def)
  next
    case (Some acc)
    with assms f obtain m where m: "pd_concat [acc, relabel il frag] = Inr m" "new = DataFrame m"
      by (auto simp add: merge_def split: sum.splits)
    from Some assms(2) have "named acc"
      by (simp add: held_named_def)
    with pd_concat_labels [OF m(1)] assms(3) m Some show ?thesis
      by (simp add: held_columns_def)
  qed
qed

lemma merge_relabel:
  "\<not> is_Scalar frag \<Longrightarrow>
   merge tdf frag il =
     (if length il = length (obj_index frag)
      then (case tdf of
              None \<Rightarrow> Inr (relabel il frag)
            | Some acc \<Rightarrow>
                (case pd_concat [acc, relabel il frag] of
                   Inl e \<Rightarrow> Inl e
                 | Inr m \<Rightarrow> Inr (DataFrame m)))
      else Inl (ValueError ''Length mismatch''))"
  by (simp add: merge_def set_index_relabel)

lemma merge_rows:
  assumes "merge tdf frag il = Inr new" and "merge tdf other il = Inr new'"
  shows "obj_index new' = obj_index new"
proof -
  from assms have f: "\<not> is_Scalar frag" "length il = length (obj_index frag)"
    "\<not> is_Scalar other" "length il = length (obj_index other)"
    by (auto simp add: merge_def set_index_relabel split: sum.splits if_splits)
  then have i: "obj_index (relabel il frag) = il" "obj_index (relabel il other) = il"
    by (simp_all add: relabel_index)
  show ?thesis
  proof (cases tdf)
    case None
    with assms f i show ?thesis by (auto simp add: merge_relabel)
  next
    case (Some acc)
    with assms f obtain m m' where "pd_concat [acc, relabel il frag] = Inr m" "new = DataFrame m"
      "pd_concat [acc, relabel il other] = Inr m'" "new' = DataFrame m'"
      by (auto simp add: merge_relabel split: sum.splits)
    with i show ?thesis
      by (auto simp add: pd_concat_def Let_def split: if_splits)
  qed
qed

lemma loop_body_content:
  assumes "loop_body df il r i t tdf st = (st', Inr tdf')"
  shows "(labelled il tdf \<longrightarrow>
            map snd (held_columns tdf') =
              map snd (held_columns tdf) @ map snd (concat (map obj_columns (unit_fragment df r t tdf st))))
       \<and> (held_named tdf \<and> list_all named (unit_fragment df r t tdf st) \<longrightarrow>
            map fst (held_columns tdf') =
              map fst (held_columns tdf) @ map fst (concat (map obj_columns (unit_fragment df r t tdf st)))
            \<and> held_named tdf')
       \<and> (unit_fragment df r t tdf st = [] \<longrightarrow> tdf' = tdf)"
  using assms
proof (cases rule: loop_body_cases)
  case skipped
  then show ?thesis by (simp add: unit_fragment_def)
next
  case (merged args st1 frag new)
  then have u: "unit_fragment df r t tdf st = [frag]"
    by (simp add: unit_fragment_def)
  from merged have n: "tdf' = Some new"
    by simp
  show ?thesis
    using merge_values [OF merged(4)] merge_labels [OF merged(4)]
    by (simp add: u n held_columns_def held_named_def)
qed simp_all

lemma run_content:
  assumes "run_transformations df il r i ts tdf st = (st', Inr tdf')"
  shows "(labelled il tdf \<longrightarrow>
            map snd (held_columns tdf') =
              map snd (held_columns tdf) @ map snd (concat (map obj_columns (fragments df il r i ts tdf st))))
       \<and> (held_named tdf \<and> list_all named (fragments df il r i ts tdf st) \<longrightarrow>
            map fst (held_columns tdf') =
              map fst (held_columns tdf) @ map fst (concat (map obj_columns (fragments df il r i ts tdf st))))
       \<and> (fragments df il r i ts tdf st = [] \<longrightarrow> tdf' = tdf)"
  using assms
proof (induction ts arbitrary: i tdf st)
  case Nil
  then show ?case by simp
next
  case (Cons t ts)
  obtain s1 r1 where b: "loop_body df il r i t tdf st = (s1, r1)"
    by (cases "loop_body df il r i t tdf st")
  with Cons.prems obtain x where x: "r1 = Inr x"
    and run: "run_transformations df il r (Suc i) ts x s1 = (st', Inr tdf')"
    by (cases r1) auto
  note body = loop_body_content [OF b [unfolded x]]
  note lab = loop_body_labelled [OF b [unfolded x]]
  note ih = Cons.IH [OF run]
  have fr: "fragments df il r i (t # ts) tdf st =
      unit_fragment df r t tdf st @ fragments df il r (Suc i) ts x s1"
    by (simp add: b x)
  show ?case
    unfolding fr using body lab ih by auto
qed

text \<open>
  C5 (as amended).  Let the units before \<open>u\<close> run without failure, and let \<open>u\<close>, not
  skipped, fail in argument resolution or in its invocation.  Then \<^verbatim>\<open>apply\<close> ends with
  that very exception.  The only calls made after those of the earlier units are the
  calls of the one invocation of \<open>u\<close>: none for a failed resolution, otherwise the
  named call, followed by the positional call exactly when the named call ended in a
  \<^verbatim>\<open>TypeError\<close>; no later unit runs and the loop does not run \<open>u\<close> again.  The
  accumulated table of the engine is the running result stored after the last unit
  before \<open>u\<close>.  Its columns are those held at the start of the call followed by the
  columns of the fragments of these units, in order: by label whenever the objects
  carry labels of their own (tables and named series), and by value, side by side
  under the canonical labels, when the table held at the start was absent or carried
  them; with no fragment it is the table held at the start.  The units before \<open>u\<close>
  are all marked applied, so a following \<^verbatim>\<open>apply\<close> without forced reapplication skips
  them and resumes at \<open>u\<close> with the retained table.
\<close>

theorem failure_keeps_merged_fragments:
  assumes "row_identity df ic = Inr (df', il)"
    and "transformations st = pre @ u # post"
    and "run_transformations df' il r 0 pre (transformed_df st) st = (st1, Inr tdf1)"
    and "\<not> (transformation_applied u \<and> \<not> r)"
    and "get_args u df' tdf1 = Inl e \<and> st2 = st1
         \<or> (\<exists>args. get_args u df' tdf1 = Inr args \<and> Transformation_apply u args st1 = (st2, Inl e))"
  shows "apply_transformations st df ic r = (st2, Inl e)
       \<and> called st2 = called st1 @
           (case get_args u df' tdf1 of
              Inl x \<Rightarrow> []
            | Inr args \<Rightarrow> calls_of (transformation_f u) args)
       \<and> transformed_df st2 = tdf1
       \<and> (labelled il (transformed_df st) \<longrightarrow>
             labelled il tdf1
             \<and> map snd (held_columns tdf1) =
                 map snd (held_columns (transformed_df st)) @
                 map snd (concat (map obj_columns (fragments df' il r 0 pre (transformed_df st) st))))
       \<and> (held_named (transformed_df st)
            \<and> list_all named (fragments df' il r 0 pre (transformed_df st) st) \<longrightarrow>
             map fst (held_columns tdf1) =
               map fst (held_columns (transformed_df st)) @
               map fst (concat (map obj_columns (fragments df' il r 0 pre (transformed_df st) st))))
       \<and> (fragments df' il r 0 pre (transformed_df st) st = [] \<longrightarrow> tdf1 = transformed_df st)
       \<and> (\<exists>pre'. transformations st2 = pre' @ u # post \<and> length pre' = length pre
              \<and> list_all transformation_applied pre')
       \<and> (row_identity df2 ic2 = Inr (df2', il2) \<longrightarrow>
             apply_transformations st2 df2 ic2 False =
               run_transformations df2' il2 False (length pre) (u # post) tdf1
                 (st2\<lparr>printed := printed st2 @ map AppliedSkipping [0..<length pre]\<rparr>))"
proof -
  have body: "loop_body df' il r (length pre) u tdf1 st1 = (st2, Inl e)"
    using assms(4,5) by (auto simp add: loop_body_def)
  have a: "apply_transformations st df ic r = (st2, Inl e)"
    using assms(1,2,3) body by (simp add: apply_unfold run_append)
  from run_running [OF assms(3)] have t1: "transformed_df st1 = tdf1"
    and l: "labelled il (transformed_df st) \<longrightarrow> labelled il tdf1"
    by auto
  from t1 loop_body_running [OF body] have t2: "transformed_df st2 = tdf1"
    by simp
  have c: "called st2 = called st1 @
           (case get_args u df' tdf1 of
              Inl x \<Rightarrow> []
            | Inr args \<Rightarrow> calls_of (transformation_f u) args)"
    using assms(5) Transformation_apply_log by fastforce
  note content = run_content [OF assms(3)]
  from run_units [OF assms(3), of "[]" "u # post"] assms(2) obtain pre' where
    p: "transformations st1 = pre' @ u # post" "length pre' = length pre"
      "list_all transformation_applied pre'"
    by auto
  have same: "transformations st2 = transformations st1"
    using assms(5) Transformation_apply_state by fastforce
  have resume: "apply_transformations st2 df2 ic2 False =
               run_transformations df2' il2 False (length pre) (u # post) tdf1
                 (st2\<lparr>printed := printed st2 @ map AppliedSkipping [0..<length pre]\<rparr>)"
    if "row_identity df2 ic2 = Inr (df2', il2)"
    using that p same t2 by (simp add: apply_unfold run_append run_skip_all)
  from p same have flags: "\<exists>pre'. transformations st2 = pre' @ u # post \<and> length pre' = length pre
              \<and> list_all transformation_applied pre'"
    by auto
  show ?thesis
    using a c t2 l content flags resume by blast
qed

section \<open>Independence of the row labels a function returns\<close>

lemma rename_reset_relabel:
  "(case rename nm (relabel ix x) of Inl e \<Rightarrow> Inl e | Inr y \<Rightarrow> reset_index y) =
   (case rename nm x of Inl e \<Rightarrow> Inl e | Inr y \<Rightarrow> reset_index y)"
  by (cases x; cases nm) (simp_all add: relabel_def rename_def reset_index_def)

lemma Transformation_apply_alt:
  "Transformation_apply t args st =
     (case call_transformation_f (transformation_f t) args st of
        (st', Inl e) \<Rightarrow> (st', Inl e)
      | (st', Inr tdf) \<Rightarrow>
          (case (case rename (name t) tdf of Inl e \<Rightarrow> Inl e | Inr y \<Rightarrow> reset_index y) of
             Inl e \<Rightarrow> (st', Inl e)
           | Inr tdf2 \<Rightarrow> (st', Inr (tdf2, t\<lparr>transformation_applied := True\<rparr>))))"
  by (simp add: Transformation_apply_def split: sum.splits prod.splits)

lemma call_relabelled:
  "call_transformation_f (relabelled \<rho> f) args st =
     (case call_transformation_f f args st of
        (st', Inl e) \<Rightarrow> (st', Inl e)
      | (st', Inr x) \<Rightarrow>
          (st', Inr (relabel (\<rho> (if (\<exists>y. code f (Named args) = Returns y) then Named args
                                  else Positional (map snd args))) x)))"
  by (auto simp add: call_transformation_f_def call_positional_def call_f_def relabelled_def
      split: outcome.splits)

lemma Transformation_apply_relabelled:
  "Transformation_apply (relabel_unit \<rho> t) args st =
     (case Transformation_apply t args st of
        (st', Inl e) \<Rightarrow> (st', Inl e)
      | (st', Inr (frag, t')) \<Rightarrow> (st', Inr (frag, relabel_unit \<rho> t')))"
  unfolding Transformation_apply_alt
  by (simp add: relabel_unit_def call_relabelled rename_reset_relabel split: sum.splits prod.splits)

lemma Transformation_apply_units:
  "Transformation_apply t args (st\<lparr>transformations := ts\<rparr>) =
     (case Transformation_apply t args st of (st', res) \<Rightarrow> (st'\<lparr>transformations := ts\<rparr>, res))"
  by (simp add: Transformation_apply_def call_transformation_f_def call_positional_def call_f_def
      split: outcome.splits sum.splits)

lemma get_args_relabel [simp]: "get_args (relabel_unit \<rho> t) df tdf = get_args t df tdf"
  by (simp add: get_args_def on_col_list_def relabel_unit_def cong: sum.case_cong if_cong)

lemma applied_relabel [simp]:
  "transformation_applied (relabel_unit \<rho> t) = transformation_applied t"
  by (simp add: relabel_unit_def)

lemma loop_body_relabelled:
  "loop_body df il r i (relabel_unit \<rho> t) tdf (relabel_state \<rho> st) =
     (case loop_body df il r i t tdf st of (st', res) \<Rightarrow> (relabel_state \<rho> st', res))"
proof -
  have a: "Transformation_apply (relabel_unit \<rho> t) args (relabel_state \<rho> st) =
     (case Transformation_apply t args st of
        (st', Inl e) \<Rightarrow> (relabel_state \<rho> st', Inl e)
      | (st', Inr (frag, t')) \<Rightarrow> (relabel_state \<rho> st', Inr (frag, relabel_unit \<rho> t')))" for args
  proof -
    obtain st' res where b: "Transformation_apply t args st = (st', res)"
      by (cases "Transformation_apply t args st")
    from Transformation_apply_state [OF b] obtain cs where "st' = st\<lparr>called := called st @ cs\<rparr>"
      by blast
    then have "st'\<lparr>transformations := map (relabel_unit \<rho>) (transformations st)\<rparr> = relabel_state \<rho> st'"
      by (simp add: relabel_state_def)
    with b show ?thesis
      by (simp add: relabel_state_def [of \<rho> st] Transformation_apply_units
          Transformation_apply_relabelled split: sum.splits prod.splits)
  qed
  show ?thesis
    by (simp add: loop_body_def a [unfolded relabel_state_def] Let_def relabel_state_def map_update
        split: sum.splits prod.splits)
qed

lemma run_relabelled:
  "run_transformations df il r i (map (relabel_unit \<rho>) ts) tdf (relabel_state \<rho> st) =
     (case run_transformations df il r i ts tdf st of (st', res) \<Rightarrow> (relabel_state \<rho> st', res))"
proof (induction ts arbitrary: i tdf st)
  case Nil
  then show ?case by simp
next
  case (Cons t ts)
  show ?case
    by (simp add: loop_body_relabelled Cons.IH split: sum.splits prod.splits)
qed

lemma apply_relabelled:
  "apply_transformations (relabel_state \<rho> st) df ic r =
     (case apply_transformations st df ic r of (st', res) \<Rightarrow> (relabel_state \<rho> st', res))"
proof (cases "row_identity df ic")
  case (Inl e)
  then show ?thesis by (simp add: apply_transformations_def)
next
  case (Inr p)
  obtain df' il where "p = (df', il)" by (cases p)
  with Inr have "row_identity df ic = Inr (df', il)" by simp
  then show ?thesis
    using run_relabelled [of df' il r 0 \<rho> "transformations st" "transformed_df st" st]
    by (simp add: apply_unfold) (simp add: relabel_state_def)
qed

section \<open>The example pipeline\<close>

lemmas engine_defs = engine_of_def after_high_def engine0_def FeaturePipeline_def

lemma row_identity_raw_str_id:
  "row_identity raw_str_id (Some [''ID'']) = Inr (work_table, [Str ''a'', Str ''b''])"
  by (simp add: row_identity_def row_keys_def select_columns_def dedup_columns_def duplicated_def
      set_column_def has_column_def drop_rows_def del_column_def raw_str_id_def work_table_def
      upt_conv_Cons Let_def)

lemma engine_of_fields [simp]:
  "transformations (engine_of ts) = ts" "transformed_df (engine_of ts) = None"
  "printed (engine_of ts) = []" "called (engine_of ts) = []"
  by (simp_all add: engine_defs)

lemma after_high_fields [simp]:
  "transformations (after_high rest) = unit_high\<lparr>transformation_applied := True\<rparr> # rest"
  "transformed_df (after_high rest) = Some (DataFrame high_table)"
  "printed (after_high rest) = []" "called (after_high rest) = [(1, Named args_amount)]"
  by (simp_all add: engine_defs)

lemma get_args_amount:
  "get_args (unit_threshold ''Amount'' nm) work_table tdf = Inr args_amount"
  by (simp add: get_args_def resolve_def resolve_col_def has_column_def frame_getitem_def
      on_col_list_def unit_threshold_def Transformation_def work_table_def args_amount_def
      threshold_500_def enumerate_eq_zip dict_update_def string_of_nat.simps digit_char_def)

lemma apply_threshold_amount:
  "Transformation_apply (unit_threshold c (Name n)) args_amount st =
     (st\<lparr>called := called st @ [(1, Named args_amount)]\<rparr>,
      Inr (DataFrame \<lparr>columns = [(Str n, [Num 0, Num 1])], index = [Num 0, Num 1]\<rparr>,
           unit_threshold c (Name n)\<lparr>transformation_applied := True\<rparr>))"
  by (simp add: Transformation_apply_def call_transformation_f_def call_f_def rename_def
      reset_index_def positional_index_def example_defs)

lemma loop_body_high:
  "loop_body work_table [Str ''a'', Str ''b''] r 0 unit_high None (engine_of (unit_high # rest)) =
     (after_high rest, Inr (Some (DataFrame high_table)))"
proof -
  have a: "\<not> transformation_applied unit_high"
    by (simp add: example_defs)
  show ?thesis
    unfolding unit_high_def
    by (simp add: loop_body_def a [unfolded unit_high_def] get_args_amount apply_threshold_amount
        merge_def set_index_def high_table_def engine_defs unit_high_def)
qed

lemma first_apply:
  "apply_transformations engine1 raw_str_id (Some [''ID'']) False =
     (after_high [], Inr (Some (DataFrame high_table)))"
proof -
  have e: "engine1 = engine_of [unit_high]"
    by (simp add: engine1_def engine_of_def)
  show ?thesis
    unfolding e
    by (simp add: apply_transformations_def row_identity_raw_str_id loop_body_high)
qed


theorem applied_units_are_skipped_witness:
  "apply_transformations engine1 raw_str_id (Some [''ID'']) False =
     (after_high [], Inr (Some (DataFrame high_table)))
   \<and> apply_transformations (after_high []) raw_str_id (Some [''ID'']) False =
     ((after_high [])\<lparr>printed := [AppliedSkipping 0]\<rparr>, Inr (Some (DataFrame high_table)))
   \<and> apply_transformations (after_high []) raw_other None False =
     ((after_high [])\<lparr>printed := [AppliedSkipping 0]\<rparr>, Inr (Some (DataFrame high_table)))"
proof -
  have a: "list_all transformation_applied (transformations (after_high []))"
    by simp
  have b: "row_identity raw_other None = Inr (raw_other, [Num 0])"
    by (simp add: row_identity_def dedup_columns_def duplicated_def raw_other_def)
  show ?thesis
    using applied_units_are_skipped [of engine1 raw_str_id "Some [''ID'']" "after_high []"
        "Some (DataFrame high_table)"]
      applied_units_are_skipped [of "after_high []" raw_other None] first_apply a b
    by simp
qed

text \<open>
  C4, the claim as stated, fails where the row identity step raises: with every unit
  applied, \<^verbatim>\<open>apply\<close> on a table that lacks the identity column ends in a \<^verbatim>\<open>KeyError\<close>
  and returns no table.
\<close>

theorem applied_engine_raises_on_missing_identity_column:
  "list_all transformation_applied (transformations (after_high []))
   \<and> apply_transformations (after_high []) raw_str_id (Some [''ClaimNumber'']) False =
       (after_high [], Inl (KeyError ''ClaimNumber''))"
  by (simp add: apply_transformations_def row_identity_def row_keys_def select_columns_def
      dedup_columns_def duplicated_def raw_str_id_def)

lemma run_high:
  "run_transformations work_table [Str ''a'', Str ''b''] r 0 [unit_high] None (engine_of (unit_high # rest)) =
     (after_high rest, Inr (Some (DataFrame high_table)))"
  by (simp add: loop_body_high)

lemma get_args_id:
  "get_args (unit_threshold ''ID'' nm) work_table tdf = Inr args_id"
  by (simp add: get_args_def resolve_def resolve_col_def has_column_def frame_getitem_def
      on_col_list_def unit_threshold_def Transformation_def work_table_def args_id_def
      threshold_500_def enumerate_eq_zip dict_update_def string_of_nat.simps digit_char_def)

lemma apply_threshold_id:
  "Transformation_apply (unit_threshold c nm) args_id st =
     (st\<lparr>called := called st @ [(1, Named args_id), (1, Positional (map snd args_id))]\<rparr>,
      Inl (TypeError ''> not supported between instances of str and int''))"
  by (simp add: Transformation_apply_def call_transformation_f_def call_positional_def call_f_def
      example_defs)

lemma after_two_fields [simp]:
  "transformations (after_two rest) =
     unit_high\<lparr>transformation_applied := True\<rparr> # unit_again\<lparr>transformation_applied := True\<rparr> # rest"
  "transformed_df (after_two rest) = Some (DataFrame two_features)"
  "printed (after_two rest) = []"
  "called (after_two rest) = [(1, Named args_amount), (1, Named args_amount)]"
  by (simp_all add: after_two_def engine_defs)

lemma not_applied_examples [simp]:
  "\<not> transformation_applied (unit_threshold c nm)" "\<not> transformation_applied unit_again"
  "\<not> transformation_applied unit_zero" "\<not> transformation_applied unit_high"
  by (simp_all add: unit_threshold_def unit_again_def unit_zero_def unit_high_def Transformation_def)

lemma get_args_high: "get_args unit_high work_table tdf = Inr args_amount"
  by (simp add: unit_high_def get_args_amount)

lemma get_args_again: "get_args unit_again work_table tdf = Inr args_amount"
  by (simp add: unit_again_def get_args_amount)

lemma apply_high:
  "Transformation_apply unit_high args_amount st =
     (st\<lparr>called := called st @ [(1, Named args_amount)]\<rparr>,
      Inr (DataFrame \<lparr>columns = [(Str ''HighAmount'', [Num 0, Num 1])], index = [Num 0, Num 1]\<rparr>,
           unit_high\<lparr>transformation_applied := True\<rparr>))"
  by (simp add: unit_high_def apply_threshold_amount)

lemma apply_again:
  "Transformation_apply unit_again args_amount st =
     (st\<lparr>called := called st @ [(1, Named args_amount)]\<rparr>,
      Inr (DataFrame \<lparr>columns = [(Str ''Again'', [Num 0, Num 1])], index = [Num 0, Num 1]\<rparr>,
           unit_again\<lparr>transformation_applied := True\<rparr>))"
  by (simp add: unit_again_def apply_threshold_amount)

lemma merge_again:
  "merge (Some (DataFrame high_table))
     (DataFrame \<lparr>columns = [(Str ''Again'', [Num 0, Num 1])], index = [Num 0, Num 1]\<rparr>)
     [Str ''a'', Str ''b''] = Inr (DataFrame two_features)"
  by (simp add: merge_def set_index_def pd_concat_def high_table_def two_features_def)

lemma loop_body_again_any:
  "loop_body work_table [Str ''a'', Str ''b''] r i unit_again (Some (DataFrame high_table)) st =
     (st\<lparr>called := called st @ [(1, Named args_amount)],
         transformations := (transformations st)[i := unit_again\<lparr>transformation_applied := True\<rparr>],
         transformed_df := Some (DataFrame two_features)\<rparr>,
      Inr (Some (DataFrame two_features)))"
  by (simp add: loop_body_def get_args_again apply_again merge_again)

lemma loop_body_again:
  "loop_body work_table [Str ''a'', Str ''b''] r (Suc 0) unit_again (Some (DataFrame high_table))
     (after_high (unit_again # rest)) =
     (after_two rest, Inr (Some (DataFrame two_features)))"
  by (simp add: loop_body_again_any) (simp add: after_two_def engine_defs)

lemma run_two:
  "run_transformations work_table [Str ''a'', Str ''b''] r 0 [unit_high, unit_again] None
     (engine_of (unit_high # unit_again # rest)) =
     (after_two rest, Inr (Some (DataFrame two_features)))"
  by (simp add: loop_body_high loop_body_again)

lemma fragments_two:
  "fragments work_table [Str ''a'', Str ''b''] r 0 [unit_high, unit_again] None
     (engine_of (unit_high # unit_again # rest)) =
     [DataFrame \<lparr>columns = [(Str ''HighAmount'', [Num 0, Num 1])], index = [Num 0, Num 1]\<rparr>,
      DataFrame \<lparr>columns = [(Str ''Again'', [Num 0, Num 1])], index = [Num 0, Num 1]\<rparr>]"
  by (simp add: loop_body_high loop_body_again unit_fragment_def get_args_high get_args_again
      apply_high apply_again)

lemma run_resumed:
  "run_transformations work_table [Str ''a'', Str ''b''] False 0
     [unit_high\<lparr>transformation_applied := True\<rparr>, unit_again] (Some (DataFrame high_table))
     (after_high (unit_again # rest)) =
     ((after_two rest)\<lparr>printed := [AppliedSkipping 0]\<rparr>, Inr (Some (DataFrame two_features)))"
  by (simp add: loop_body_skip loop_body_again_any) (simp add: after_two_def engine_defs)

lemma fragments_resumed:
  "fragments work_table [Str ''a'', Str ''b''] False 0
     [unit_high\<lparr>transformation_applied := True\<rparr>, unit_again] (Some (DataFrame high_table))
     (after_high (unit_again # rest)) =
     [DataFrame \<lparr>columns = [(Str ''Again'', [Num 0, Num 1])], index = [Num 0, Num 1]\<rparr>]"
  by (simp add: loop_body_skip loop_body_again_any unit_fragment_def get_args_again apply_again)

lemma get_args_missing:
  "get_args (unit_threshold ''Missing'' nm) work_table (Some (DataFrame two_features)) =
      Inl (Exception ''Column Missing not found in input dataframes'')"
  by (simp add: get_args_def resolve_def resolve_col_def has_column_def py_getitem_def
      frame_getitem_def not_found_def on_col_list_def unit_threshold_def Transformation_def
      work_table_def two_features_def)

lemma get_args_zero: "get_args unit_zero work_table tdf = Inr ser_amount"
  by (simp add: get_args_def resolve_def resolve_col_def has_column_def frame_getitem_def
      on_col_list_def unit_zero_def Transformation_def work_table_def ser_amount_def
      enumerate_eq_zip string_of_nat.simps digit_char_def)

lemma apply_zero:
  "Transformation_apply unit_zero ser_amount st =
     (st\<lparr>called := called st @ [(3, Named ser_amount)]\<rparr>, Inl (OtherError ''ZeroDivisionError''))"
  by (simp add: Transformation_apply_def call_transformation_f_def call_f_def unit_zero_def
      Transformation_def always_raises_def)

lemma loop_body_id:
  "loop_body work_table il r i (unit_threshold ''ID'' nm) tdf st =
     (st\<lparr>called := called st @ [(1, Named args_id), (1, Positional (map snd args_id))]\<rparr>,
      Inl (TypeError ''> not supported between instances of str and int''))"
  by (simp add: loop_body_def get_args_id apply_threshold_id)

theorem failure_keeps_merged_fragments_witness:
  "apply_transformations (engine_of [unit_high, unit_again, unit_threshold ''Missing'' (Name ''M'')])
      raw_str_id (Some [''ID'']) False =
     (after_two [unit_threshold ''Missing'' (Name ''M'')],
      Inl (Exception ''Column Missing not found in input dataframes''))
   \<and> fragments work_table [Str ''a'', Str ''b''] False 0 [unit_high, unit_again] None
        (engine_of [unit_high, unit_again, unit_threshold ''Missing'' (Name ''M'')]) =
     [DataFrame \<lparr>columns = [(Str ''HighAmount'', [Num 0, Num 1])], index = [Num 0, Num 1]\<rparr>,
      DataFrame \<lparr>columns = [(Str ''Again'', [Num 0, Num 1])], index = [Num 0, Num 1]\<rparr>]
   \<and> apply_transformations (after_high [unit_again, unit_zero]) raw_str_id (Some [''ID'']) False =
     ((after_two [unit_zero])
        \<lparr>printed := [AppliedSkipping 0],
         called := [(1, Named args_amount), (1, Named args_amount), (3, Named ser_amount)]\<rparr>,
      Inl (OtherError ''ZeroDivisionError''))
   \<and> fragments work_table [Str ''a'', Str ''b''] False 0
        [unit_high\<lparr>transformation_applied := True\<rparr>, unit_again] (Some (DataFrame high_table))
        (after_high [unit_again, unit_zero]) =
     [DataFrame \<lparr>columns = [(Str ''Again'', [Num 0, Num 1])], index = [Num 0, Num 1]\<rparr>]
   \<and> transformed_df (after_two [unit_zero]) = Some (DataFrame two_features)
   \<and> columns two_features =
       [(Str ''HighAmount'', [Num 0, Num 1]), (Str ''Again'', [Num 0, Num 1])]"
proof -
  let ?il = "[Str ''a'', Str ''b'']"
  let ?m = "unit_threshold ''Missing'' (Name ''M'')"
  let ?fresh = "engine_of [unit_high, unit_again, ?m]"
  let ?held = "after_high [unit_again, unit_zero]"
  let ?z1 = "(after_two [unit_zero])\<lparr>printed := [AppliedSkipping 0]\<rparr>"
  let ?z2 = "?z1\<lparr>called := called ?z1 @ [(3, Named ser_amount)]\<rparr>"
  have units_m: "transformations ?fresh = [unit_high, unit_again] @ ?m # []"
    by simp
  have run_m: "run_transformations work_table ?il False 0 [unit_high, unit_again]
      (transformed_df ?fresh) ?fresh = (after_two [?m], Inr (Some (DataFrame two_features)))"
    by (simp add: run_two del: run_transformations.simps)
  have exec_m: "\<not> (transformation_applied ?m \<and> \<not> False)"
    by simp
  have fail_m: "get_args ?m work_table (Some (DataFrame two_features)) =
        Inl (Exception ''Column Missing not found in input dataframes'')
        \<and> after_two [?m] = after_two [?m]
      \<or> (\<exists>args. get_args ?m work_table (Some (DataFrame two_features)) = Inr args
            \<and> Transformation_apply ?m args (after_two [?m]) =
                (after_two [?m], Inl (Exception ''Column Missing not found in input dataframes'')))"
    by (simp add: get_args_missing)
  have units_z: "transformations ?held =
      [unit_high\<lparr>transformation_applied := True\<rparr>, unit_again] @ unit_zero # []"
    by simp
  have run_z: "run_transformations work_table ?il False 0
      [unit_high\<lparr>transformation_applied := True\<rparr>, unit_again] (transformed_df ?held) ?held =
      (?z1, Inr (Some (DataFrame two_features)))"
    by (simp add: run_resumed del: run_transformations.simps)
  have exec_z: "\<not> (transformation_applied unit_zero \<and> \<not> False)"
    by simp
  have fail_z: "get_args unit_zero work_table (Some (DataFrame two_features)) =
        Inl (OtherError ''ZeroDivisionError'') \<and> ?z2 = ?z1
      \<or> (\<exists>args. get_args unit_zero work_table (Some (DataFrame two_features)) = Inr args
            \<and> Transformation_apply unit_zero args ?z1 = (?z2, Inl (OtherError ''ZeroDivisionError'')))"
    by (simp add: get_args_zero apply_zero)
  have l: "labelled ?il (transformed_df ?fresh)" "held_named (transformed_df ?fresh)"
    "labelled ?il (transformed_df ?held)" "held_named (transformed_df ?held)"
    by (simp_all add: labelled_def held_named_def high_table_def)
  show ?thesis
    using failure_keeps_merged_fragments [OF row_identity_raw_str_id units_m run_m exec_m fail_m]
      failure_keeps_merged_fragments [OF row_identity_raw_str_id units_z run_z exec_z fail_z]
    by (simp add: fragments_two fragments_resumed l held_columns_def two_features_def
        del: fragments.simps)
qed

text \<open>
  C5, the claim as stated, fails on its clause that no retry occurs: the second unit
  raises a \<^verbatim>\<open>TypeError\<close> from its own logic, \<^verbatim>\<open>Transformation.apply\<close> catches it and calls
  the function a second time, and only the exception of that second call reaches the
  caller.
\<close>

theorem failing_function_is_called_twice:
  "apply_transformations (engine_of [unit_high, unit_threshold ''ID'' (Name ''X'')])
      raw_str_id (Some [''ID'']) False =
     ((after_high [unit_threshold ''ID'' (Name ''X'')])
        \<lparr>called := [(1, Named args_amount), (1, Named args_id), (1, Positional (map snd args_id))]\<rparr>,
      Inl (TypeError ''> not supported between instances of str and int''))"
  by (simp add: apply_transformations_def row_identity_raw_str_id loop_body_high loop_body_id)

text \<open>
  C2 (as amended).  Take any unit \<open>t\<close> executed in a call, after the units before it,
  whose invocation returned the fragment \<open>frag\<close>.  The rows of the fragment are
  numbered from 0, whatever row labels the function gave.  The merge first replaces
  these labels by the canonical labels of the call, by position, keeping the columns: a
  fragment with another number of rows makes the call fail with the length mismatch of
  the assignment; otherwise the relabelled fragment becomes the running result or is
  concatenated to it, and the call goes on with the next unit.  The rows of the merged
  table are the same for any fragment, and they carry the canonical labels when the
  running result did.  When the accumulated table the engine holds at the start of the
  call is absent or carries the canonical labels of the call, the accumulated table
  carries them after the call, also when the call ends in an exception, and a table
  returned is the accumulated one.  Replacing the functions by functions that return
  the same values under other row labels changes neither the result nor the
  accumulated table.
\<close>

theorem output_rows_are_canonical:
  assumes "row_identity df ic = Inr (df', il)"
  shows "(transformations st = pre @ t # post
          \<and> run_transformations df' il r 0 pre (transformed_df st) st = (st1, Inr tdf1)
          \<and> \<not> (transformation_applied t \<and> \<not> r)
          \<and> get_args t df' tdf1 = Inr args
          \<and> Transformation_apply t args st1 = (st2, Inr (frag, t')) \<longrightarrow>
            obj_index frag = positional_index (length (obj_index frag))
          \<and> merge tdf1 frag il =
              (if length il = length (obj_index frag)
               then (case tdf1 of
                       None \<Rightarrow> Inr (relabel il frag)
                     | Some acc \<Rightarrow>
                         (case pd_concat [acc, relabel il frag] of
                            Inl e \<Rightarrow> Inl e
                          | Inr m \<Rightarrow> Inr (DataFrame m)))
               else Inl (ValueError ''Length mismatch''))
          \<and> (length il = length (obj_index frag) \<longrightarrow>
                obj_index (relabel il frag) = il \<and> obj_columns (relabel il frag) = obj_columns frag)
          \<and> (merge tdf1 frag il = Inr new \<and> merge tdf1 other il = Inr new' \<longrightarrow>
                obj_index new' = obj_index new)
          \<and> (merge tdf1 frag il = Inr new \<and> labelled il tdf1 \<longrightarrow> obj_index new = il)
          \<and> apply_transformations st df ic r =
              (case merge tdf1 frag il of
                 Inl e \<Rightarrow> (st2\<lparr>transformations := (transformations st2)[length pre := t']\<rparr>, Inl e)
               | Inr new \<Rightarrow>
                   run_transformations df' il r (Suc (length pre)) post (Some new)
                     (st2\<lparr>transformations := (transformations st2)[length pre := t'],
                          transformed_df := Some new\<rparr>)))
       \<and> (labelled il (transformed_df st) \<and> apply_transformations st df ic r = (st', res) \<longrightarrow>
            labelled il (transformed_df st') \<and> (\<forall>x. res = Inr x \<longrightarrow> x = transformed_df st'))
       \<and> apply_transformations (relabel_state \<rho> st) df ic r =
            (case apply_transformations st df ic r of (st', res) \<Rightarrow> (relabel_state \<rho> st', res))"
proof (intro conjI impI)
  assume h: "transformations st = pre @ t # post
          \<and> run_transformations df' il r 0 pre (transformed_df st) st = (st1, Inr tdf1)
          \<and> \<not> (transformation_applied t \<and> \<not> r)
          \<and> get_args t df' tdf1 = Inr args
          \<and> Transformation_apply t args st1 = (st2, Inr (frag, t'))"
  then have ap: "Transformation_apply t args st1 = (st2, Inr (frag, t'))"
    by simp
  note pandas = Transformation_apply_pandas [OF ap]
  from Transformation_apply_result [OF ap]
  show "obj_index frag = positional_index (length (obj_index frag))"
    by simp
  from pandas show "merge tdf1 frag il =
              (if length il = length (obj_index frag)
               then (case tdf1 of
                       None \<Rightarrow> Inr (relabel il frag)
                     | Some acc \<Rightarrow>
                         (case pd_concat [acc, relabel il frag] of
                            Inl e \<Rightarrow> Inl e
                          | Inr m \<Rightarrow> Inr (DataFrame m)))
               else Inl (ValueError ''Length mismatch''))"
    by (rule merge_relabel)
  have body: "loop_body df' il r (length pre) t tdf1 st1 =
      (case merge tdf1 frag il of
         Inl e \<Rightarrow> (st2\<lparr>transformations := (transformations st2)[length pre := t']\<rparr>, Inl e)
       | Inr new \<Rightarrow>
           (st2\<lparr>transformations := (transformations st2)[length pre := t'],
                transformed_df := Some new\<rparr>, Inr (Some new)))"
    using h by (auto simp add: loop_body_def Let_def split: sum.splits)
  from h assms body show "apply_transformations st df ic r =
              (case merge tdf1 frag il of
                 Inl e \<Rightarrow> (st2\<lparr>transformations := (transformations st2)[length pre := t']\<rparr>, Inl e)
               | Inr new \<Rightarrow>
                   run_transformations df' il r (Suc (length pre)) post (Some new)
                     (st2\<lparr>transformations := (transformations st2)[length pre := t'],
                          transformed_df := Some new\<rparr>))"
    by (simp add: apply_unfold run_append split: sum.splits)
  {
    assume "length il = length (obj_index frag)"
    with pandas show "obj_index (relabel il frag) = il"
      by (simp add: relabel_index)
    show "obj_columns (relabel il frag) = obj_columns frag"
      by simp
  }
  {
    assume "merge tdf1 frag il = Inr new \<and> merge tdf1 other il = Inr new'"
    then show "obj_index new' = obj_index new"
      using merge_rows by blast
  }
  {
    assume "merge tdf1 frag il = Inr new \<and> labelled il tdf1"
    then show "obj_index new = il"
      using merge_labelled by blast
  }
next
  assume a: "labelled il (transformed_df st) \<and> apply_transformations st df ic r = (st', res)"
  with assms have run:
    "run_transformations df' il r 0 (transformations st) (transformed_df st) st = (st', res)"
    by (simp add: apply_unfold)
  from run_running [OF run] a show "labelled il (transformed_df st')"
    by simp
  from run_running [OF run] show "\<forall>x. res = Inr x \<longrightarrow> x = transformed_df st'"
    by simp
next
  show "apply_transformations (relabel_state \<rho> st) df ic r =
            (case apply_transformations st df ic r of (st', res) \<Rightarrow> (relabel_state \<rho> st', res))"
    by (rule apply_relabelled)
qed

theorem output_rows_are_canonical_witness:
  "apply_transformations (engine_of [unit_high, unit_again]) raw_str_id (Some [''ID'']) False =
     (after_two [], Inr (Some (DataFrame two_features)))
   \<and> labelled [Str ''a'', Str ''b''] (transformed_df (after_two []))
   \<and> apply_transformations (relabel_state other_labels (engine_of [unit_high, unit_again]))
        raw_str_id (Some [''ID'']) False =
     (relabel_state other_labels (after_two []), Inr (Some (DataFrame two_features)))
   \<and> merge (Some (DataFrame high_table))
        (DataFrame \<lparr>columns = [(Str ''Again'', [Num 0, Num 1])], index = [Num 0, Num 1]\<rparr>)
        [Str ''a'', Str ''b''] = Inr (DataFrame two_features)"
proof -
  let ?il = "[Str ''a'', Str ''b'']"
  let ?frag = "DataFrame \<lparr>columns = [(Str ''Again'', [Num 0, Num 1])], index = [Num 0, Num 1]\<rparr>"
  let ?st = "engine_of [unit_high, unit_again]"
  let ?st2 = "(after_high [unit_again])\<lparr>called := called (after_high [unit_again]) @ [(1, Named args_amount)]\<rparr>"
  have h: "transformations ?st = [unit_high] @ unit_again # []
      \<and> run_transformations work_table ?il False 0 [unit_high] (transformed_df ?st) ?st =
          (after_high [unit_again], Inr (Some (DataFrame high_table)))
      \<and> \<not> (transformation_applied unit_again \<and> \<not> False)
      \<and> get_args unit_again work_table (Some (DataFrame high_table)) = Inr args_amount
      \<and> Transformation_apply unit_again args_amount (after_high [unit_again]) =
          (?st2, Inr (?frag, unit_again\<lparr>transformation_applied := True\<rparr>))"
    by (simp add: run_high get_args_again apply_again del: run_transformations.simps)
  have l: "labelled ?il (transformed_df ?st)"
    by (simp add: labelled_def)
  note w = output_rows_are_canonical [OF row_identity_raw_str_id, where st = ?st and pre = "[unit_high]"
      and t = unit_again and post = "[]" and r = False and ?st1.0 = "after_high [unit_again]"
      and ?tdf1.0 = "Some (DataFrame high_table)" and args = args_amount and ?st2.0 = ?st2
      and frag = ?frag and t' = "unit_again\<lparr>transformation_applied := True\<rparr>"
      and st' = "after_two []" and res = "Inr (Some (DataFrame two_features))"
      and \<rho> = other_labels]
  from w h have a: "apply_transformations ?st raw_str_id (Some [''ID'']) False =
      (after_two [], Inr (Some (DataFrame two_features)))"
    by (simp add: merge_again after_two_def engine_defs)
  from w a l show ?thesis
    by (simp add: merge_again)
qed

lemma row_identity_raw_other:
  "row_identity raw_other (Some [''ID'']) =
     Inr (\<lparr>columns = [(Str ''ID'', [Str ''c'']), (Str ''Amount'', [Num 700])], index = [Str ''c'']\<rparr>,
          [Str ''c''])"
  by (simp add: row_identity_def row_keys_def select_columns_def dedup_columns_def duplicated_def
      set_column_def has_column_def drop_rows_def del_column_def raw_other_def Let_def)

text \<open>
  C2, the claim as stated, fails when the engine holds a table from a call on other
  rows: the unit registered after that call is run on a table whose only row has the
  key \<^verbatim>\<open>c\<close>, its fragment is labelled \<^verbatim>\<open>c\<close>, and the concatenation with the table
  labelled \<^verbatim>\<open>a\<close>, \<^verbatim>\<open>b\<close> gives rows \<^verbatim>\<open>a\<close>, \<^verbatim>\<open>b\<close>, \<^verbatim>\<open>c\<close>.
\<close>

theorem accumulated_rows_of_an_earlier_call_remain:
  "add_transformation (after_high []) (Col ''Amount'') transforms_above_threshold
      (Some threshold_500) (Name ''Again'') ''series'' =
     Inr (after_high [unit_threshold ''Amount'' (Name ''Again'')])
   \<and> row_identity raw_other (Some [''ID'']) =
     Inr (\<lparr>columns = [(Str ''ID'', [Str ''c'']), (Str ''Amount'', [Num 700])], index = [Str ''c'']\<rparr>,
          [Str ''c''])
   \<and> snd (apply_transformations (after_high [unit_threshold ''Amount'' (Name ''Again'')])
            raw_other (Some [''ID'']) False) =
     Inr (Some (DataFrame
       \<lparr>columns = [(Str ''HighAmount'', [Num 0, Num 1, PyNone]),
                   (Str ''Again'', [PyNone, PyNone, Num 1])],
        index = [Str ''a'', Str ''b'', Str ''c'']\<rparr>))"
proof -
  have a: "get_args (unit_threshold ''Amount'' (Name ''Again''))
      \<lparr>columns = [(Str ''ID'', [Str ''c'']), (Str ''Amount'', [Num 700])], index = [Str ''c'']\<rparr> tdf =
      Inr [(''ser1'', Series \<lparr>sname = Str ''Amount'', svalues = [Num 700], sindex = [Str ''c'']\<rparr>),
           (''threshold'', Scalar (Num 500))]" for tdf
    by (simp add: get_args_def resolve_def resolve_col_def has_column_def frame_getitem_def
      on_col_list_def unit_threshold_def Transformation_def
      threshold_500_def enumerate_eq_zip dict_update_def string_of_nat.simps digit_char_def)
  have b: "Transformation_apply (unit_threshold ''Amount'' (Name ''Again''))
      [(''ser1'', Series \<lparr>sname = Str ''Amount'', svalues = [Num 700], sindex = [Str ''c'']\<rparr>),
           (''threshold'', Scalar (Num 500))] st =
     (st\<lparr>called := called st @ [(1, Named [(''ser1'', Series \<lparr>sname = Str ''Amount'', svalues = [Num 700], sindex = [Str ''c'']\<rparr>),
           (''threshold'', Scalar (Num 500))])]\<rparr>,
      Inr (DataFrame \<lparr>columns = [(Str ''Again'', [Num 1])], index = [Num 0]\<rparr>,
           unit_threshold ''Amount'' (Name ''Again'')\<lparr>transformation_applied := True\<rparr>))" for st
    by (simp add: Transformation_apply_def call_transformation_f_def call_f_def rename_def
      reset_index_def positional_index_def example_defs)
  have c: "merge (Some (DataFrame high_table))
      (DataFrame \<lparr>columns = [(Str ''Again'', [Num 1])], index = [Num 0]\<rparr>) [Str ''c''] =
      Inr (DataFrame
       \<lparr>columns = [(Str ''HighAmount'', [Num 0, Num 1, PyNone]),
                   (Str ''Again'', [PyNone, PyNone, Num 1])],
        index = [Str ''a'', Str ''b'', Str ''c'']\<rparr>)"
    by (simp add: merge_def set_index_def pd_concat_def reindex_def duplicated_def high_table_def)
  have d: "\<not> transformation_applied (unit_threshold ''Amount'' (Name ''Again''))"
    by (simp add: example_defs)
  have e: "add_transformation (after_high []) (Col ''Amount'') transforms_above_threshold
      (Some threshold_500) (Name ''Again'') ''series'' =
     Inr (after_high [unit_threshold ''Amount'' (Name ''Again'')])"
    by (simp add: add_transformation_def py_in_False engine_defs unit_threshold_def
        transforms_above_threshold_def)
  show ?thesis
    by (simp add: e row_identity_raw_other apply_transformations_def loop_body_def a b c d)
qed

section \<open>Row identity and the output\<close>

text \<open>
  C3 (as amended).  For a well-formed raw table with at least one row and a non-empty
  list of distinct identity columns, all present and holding strings only, the key of a
  row is the concatenation of its cells in these columns; the rows kept are those whose
  key does not occur in an earlier row, in their order; the kept keys, pairwise
  different, are the row labels of the working table and the canonical row labels of
  the call, hence the row labels of the table the call returns when the engine held
  no table, or one so labelled, before.  The working table has the columns of the raw table (first occurrence of
  each label, a column \<^verbatim>\<open>INDEX\<close> left out).
\<close>

theorem row_identity_of_string_columns:
  assumes "wf_frame df" and "ic \<noteq> []" and "distinct ic" and "index df \<noteq> []"
    and "string_valued df ic"
  shows "row_identity df (Some ic) = Inr (deduplicated_table df ic, kept_keys df ic)
       \<and> distinct (kept_keys df ic)
       \<and> (labelled (kept_keys df ic) (transformed_df st)
            \<and> apply_transformations st df (Some ic) r = (st', Inr (Some x))
          \<longrightarrow> obj_index x = kept_keys df ic)"
proof -
  have ri: "row_identity df (Some ic) = Inr (deduplicated_table df ic, kept_keys df ic)"
    and d: "distinct (kept_keys df ic)"
    using row_identity_strings [OF assms] by (simp_all add: deduplicated_table_def kept_keys_def)
  have "obj_index x = kept_keys df ic"
    if l: "labelled (kept_keys df ic) (transformed_df st)"
      and a: "apply_transformations st df (Some ic) r = (st', Inr (Some x))"
  proof -
    from a ri have "run_transformations (deduplicated_table df ic) (kept_keys df ic) r 0
        (transformations st) (transformed_df st) st = (st', Inr (Some x))"
      by (simp add: apply_unfold)
    from run_running [OF this] l have "labelled (kept_keys df ic) (Some x)"
      by auto
    then show ?thesis
      by (simp add: labelled_def)
  qed
  with ri d show ?thesis
    by blast
qed

theorem row_identity_of_string_columns_witness:
  "wf_frame raw_str_id \<and> string_valued raw_str_id [''ID'']
   \<and> row_identity raw_str_id (Some [''ID'']) = Inr (work_table, [Str ''a'', Str ''b''])
   \<and> apply_transformations engine1 raw_str_id (Some [''ID'']) False =
       (after_high [], Inr (Some (DataFrame high_table)))
   \<and> obj_index (DataFrame high_table) = [Str ''a'', Str ''b'']"
proof -
  have a: "wf_frame raw_str_id"
    by (simp add: wf_frame_def raw_str_id_def)
  have b: "string_valued raw_str_id [''ID'']"
    by (simp add: string_valued_def raw_str_id_def)
  have c: "index raw_str_id \<noteq> []"
    by (simp add: raw_str_id_def)
  have d: "del_column (dedup_columns raw_str_id) ''INDEX'' = raw_str_id"
    by (simp add: del_column_def dedup_columns_def duplicated_def raw_str_id_def)
  have e: "(take_rows [0, Suc 0] raw_str_id)\<lparr>index := [Str ''a'', Str ''b'']\<rparr> = work_table"
    by (simp add: take_rows_def raw_str_id_def work_table_def)
  have k: "kept_keys raw_str_id [''ID''] = [Str ''a'', Str ''b'']"
    by (simp add: kept_keys_def keys_raw_str_id first_occurrences_abb)
  have t: "deduplicated_table raw_str_id [''ID''] = work_table"
    by (simp add: deduplicated_table_def k keys_raw_str_id first_occurrences_abb d e)
  have l: "labelled [Str ''a'', Str ''b''] (transformed_df engine1)"
    by (simp add: labelled_def example_defs)
  show ?thesis
    using row_identity_of_string_columns [OF a _ _ c b, where st = engine1
        and r = False and st' = "after_high []" and x = "DataFrame high_table"]
      a b l first_apply
    by (simp add: k t)
qed

section \<open>Resolution against a bare series\<close>

text \<open>
  C1.  A name that matches the column an earlier unit produced in the same call does
  not resolve when that unit was registered without an output name and returned a
  series: the series is the running result as it is, \<^verbatim>\<open>transformed_df[c]\<close> looks the
  name up among its row labels, and \<^verbatim>\<open>get_args\<close> raises the missing-column exception for
  the column \<^verbatim>\<open>Double\<close> that the first unit has just produced.  (With an output name
  the series is made a table first, and the name resolves, as \<open>argument_resolution\<close>
  shows.)
\<close>

theorem bare_series_is_not_found_by_name:
  "transformed_df (fst (apply_transformations
       (engine_of [unit_doubled, unit_threshold ''Double'' (Name ''HighDouble'')])
       raw_str_id (Some [''ID'']) False)) =
     Some (Series \<lparr>sname = Str ''Double'', svalues = [Num 200, Num 1200],
                   sindex = [Str ''a'', Str ''b'']\<rparr>)
   \<and> snd (apply_transformations
       (engine_of [unit_doubled, unit_threshold ''Double'' (Name ''HighDouble'')])
       raw_str_id (Some [''ID'']) False) =
     Inl (Exception ''Column Double not found in input dataframes'')"
proof -
  have a: "get_args unit_doubled work_table tdf =
      Inr [(''ser1'', Series \<lparr>sname = Str ''Amount'', svalues = [Num 100, Num 600],
                               sindex = [Str ''a'', Str ''b'']\<rparr>)]" for tdf
    by (simp add: get_args_def resolve_def resolve_col_def has_column_def frame_getitem_def
      on_col_list_def unit_doubled_def Transformation_def work_table_def
      enumerate_eq_zip string_of_nat.simps digit_char_def)
  have b: "Transformation_apply unit_doubled
      [(''ser1'', Series \<lparr>sname = Str ''Amount'', svalues = [Num 100, Num 600],
                               sindex = [Str ''a'', Str ''b'']\<rparr>)] st =
      (st\<lparr>called := called st @ [(5, Named [(''ser1'', Series \<lparr>sname = Str ''Amount'',
             svalues = [Num 100, Num 600], sindex = [Str ''a'', Str ''b'']\<rparr>)])]\<rparr>,
       Inr (Series \<lparr>sname = Str ''Double'', svalues = [Num 200, Num 1200], sindex = [Num 0, Num 1]\<rparr>,
            unit_doubled\<lparr>transformation_applied := True\<rparr>))" for st
    by (simp add: Transformation_apply_def call_transformation_f_def call_f_def rename_def
      reset_index_def positional_index_def unit_doubled_def Transformation_def doubled_def
      doubled_code_def doubled_body_def)
  have c: "get_args (unit_threshold ''Double'' (Name ''HighDouble'')) work_table
      (Some (Series \<lparr>sname = Str ''Double'', svalues = [Num 200, Num 1200],
                     sindex = [Str ''a'', Str ''b'']\<rparr>)) =
      Inl (Exception ''Column Double not found in input dataframes'')"
    by (simp add: get_args_def resolve_def resolve_col_def has_column_def py_getitem_def
        series_getitem_def not_found_def on_col_list_def unit_threshold_def Transformation_def
        work_table_def)
  have d: "\<not> transformation_applied unit_doubled"
    "\<not> transformation_applied (unit_threshold ''Double'' (Name ''HighDouble''))"
    by (simp_all add: unit_doubled_def unit_threshold_def Transformation_def)
  show ?thesis
    by (simp add: apply_transformations_def row_identity_raw_str_id loop_body_def a b c d
        merge_def set_index_def)
qed

section \<open>The name of a one-column table\<close>

text \<open>
  C8.  A result that has a single column is not named exactly \<open>N\<close> when it is a table:
  \<^verbatim>\<open>doubled_table\<close>, registered on the one column \<^verbatim>\<open>Amount\<close> under the name \<^verbatim>\<open>Double\<close>,
  returns a table of one column, and \<^verbatim>\<open>Transformation.apply\<close> takes the branch for tables
  and names the column \<^verbatim>\<open>Double_Amount\<close>.  (The docstring of the class calls the name
  a prefix for more than one feature.)
\<close>

theorem one_column_table_is_prefixed:
  "add_transformation engine0 (Col ''Amount'') doubled_table None (Name ''Double'') ''dataframe'' =
     Inr (engine0\<lparr>transformations := [unit_doubled_table], fn_logger := (\<lambda>f. None)(6 := Some None)\<rparr>)
   \<and> get_args unit_doubled_table work_table None = Inr [(''df'', DataFrame amount_table)]
   \<and> Transformation_apply unit_doubled_table [(''df'', DataFrame amount_table)] engine0 =
     (engine0\<lparr>called := [(6, Named [(''df'', DataFrame amount_table)])]\<rparr>,
      Inr (DataFrame \<lparr>columns = [(Str ''Double_Amount'', [Num 200, Num 1200])],
                      index = [Num 0, Num 1]\<rparr>,
           unit_doubled_table\<lparr>transformation_applied := True\<rparr>))
   \<and> snd (apply_transformations
            (engine0\<lparr>transformations := [unit_doubled_table], fn_logger := (\<lambda>f. None)(6 := Some None)\<rparr>)
            raw_str_id (Some [''ID'']) False) =
     Inr (Some (DataFrame \<lparr>columns = [(Str ''Double_Amount'', [Num 200, Num 1200])],
                           index = [Str ''a'', Str ''b'']\<rparr>))"
proof -
  have reg: "add_transformation engine0 (Col ''Amount'') doubled_table None (Name ''Double'') ''dataframe'' =
     Inr (engine0\<lparr>transformations := [unit_doubled_table], fn_logger := (\<lambda>f. None)(6 := Some None)\<rparr>)"
    by (simp add: add_transformation_def py_in_False engine0_def FeaturePipeline_def
        unit_doubled_table_def doubled_table_def)
  have a: "get_args unit_doubled_table work_table tdf = Inr [(''df'', DataFrame amount_table)]" for tdf
    by (simp add: get_args_def resolve_def resolve_col_def has_column_def frame_getitem_def
        on_col_list_def unit_doubled_table_def Transformation_def work_table_def amount_table_def
        pd_concat_def shape0_def)
  have b: "Transformation_apply unit_doubled_table [(''df'', DataFrame amount_table)] st =
     (st\<lparr>called := called st @ [(6, Named [(''df'', DataFrame amount_table)])]\<rparr>,
      Inr (DataFrame \<lparr>columns = [(Str ''Double_Amount'', [Num 200, Num 1200])],
                      index = [Num 0, Num 1]\<rparr>,
           unit_doubled_table\<lparr>transformation_applied := True\<rparr>))" for st
    by (simp add: Transformation_apply_def call_transformation_f_def call_f_def rename_def
        reset_index_def positional_index_def unit_doubled_table_def Transformation_def
        doubled_table_def doubled_table_code_def doubled_table_body_def double_cell_def
        amount_table_def)
  have d: "\<not> transformation_applied unit_doubled_table"
    by (simp add: unit_doubled_table_def Transformation_def)
  have run: "snd (apply_transformations
            (engine0\<lparr>transformations := [unit_doubled_table], fn_logger := (\<lambda>f. None)(6 := Some None)\<rparr>)
            raw_str_id (Some [''ID'']) False) =
     Inr (Some (DataFrame \<lparr>columns = [(Str ''Double_Amount'', [Num 200, Num 1200])],
                           index = [Str ''a'', Str ''b'']\<rparr>))"
    by (simp add: apply_transformations_def row_identity_raw_str_id loop_body_def a b d
        merge_def set_index_def engine0_def FeaturePipeline_def)
  from reg a b [of engine0] run show ?thesis
    by (simp add: engine0_def FeaturePipeline_def)
qed

end
